theory Spec2Isabelle
  imports Main
begin

section \<open>JavaScript strings and values\<close>

text \<open>
  A JavaScript string is a sequence of code units. The model uses \<^typ>\<open>string\<close>, one
  \<^typ>\<open>char\<close> per code unit, which covers every code unit below 256 (ASCII and the
  pound sign of the enum escaping table). None of the functions below treats a
  code unit above that range specially.
\<close>

text \<open>\<^verbatim>\<open>s.split(c)\<close> for a one-character separator: never the empty list.\<close>

fun split_on :: "char \<Rightarrow> string \<Rightarrow> string list" where
  "split_on c [] = [[]]"
| "split_on c (x # xs) =
     (if x = c then [] # split_on c xs
      else (case split_on c xs of p # ps \<Rightarrow> (x # p) # ps | [] \<Rightarrow> [[x]]))"

text \<open>\<^verbatim>\<open>s.lastIndexOf(c)\<close>: the index of the last occurrence, or -1.\<close>

fun lastIndexOf :: "char \<Rightarrow> string \<Rightarrow> int" where
  "lastIndexOf c [] = - 1"
| "lastIndexOf c (x # xs) =
     (let r = lastIndexOf c xs
      in if 0 \<le> r then r + 1 else if x = c then 0 else - 1)"

text \<open>\<^verbatim>\<open>s.replace(c, t)\<close> with a string pattern: only the first occurrence is replaced.\<close>

fun replace_first :: "char \<Rightarrow> string \<Rightarrow> string \<Rightarrow> string" where
  "replace_first c t [] = []"
| "replace_first c t (x # xs) = (if x = c then t @ xs else x # replace_first c t xs)"

text \<open>\<^verbatim>\<open>s.replace(/c/g, t)\<close>: every occurrence of the character is replaced.\<close>

definition replace_all :: "char \<Rightarrow> string \<Rightarrow> string \<Rightarrow> string" where
  "replace_all c t s = concat (map (\<lambda>x. if x = c then t else [x]) s)"

definition is_digit :: "char \<Rightarrow> bool" where
  "is_digit c \<longleftrightarrow> c \<in> set ''0123456789''"

text \<open>
  Values that cross the codec boundary. Numbers are kept abstract (type \<open>'n\<close>):
  they are produced by \<^verbatim>\<open>parseFloat\<close> and by the parsers of the \<^verbatim>\<open>pg\<close>
  library, which are parameters of the model. An object is its list of own
  properties in insertion order.
\<close>

datatype 'n jsval =
    Undefined
  | Null
  | Bool bool
  | Num 'n
  | Str string
  | Arr "'n jsval list"
  | Obj "(string \<times> 'n jsval) list"

text \<open>\<^verbatim>\<open>val == null\<close> holds for \<^verbatim>\<open>null\<close> and \<^verbatim>\<open>undefined\<close> only.\<close>

fun is_nullish :: "'n jsval \<Rightarrow> bool" where
  "is_nullish Undefined = True"
| "is_nullish Null = True"
| "is_nullish _ = False"

section \<open>Fixed value codecs of PgTypesPlugin\<close>

text \<open>
  \<^verbatim>\<open>parseMoney\<close> (PgTypesPlugin.js, lines 444-454). \<^verbatim>\<open>str.replace(/[^0-9.,]/g, "")\<close>
  removes every code unit that is not a digit, a dot or a comma. The number that
  \<^verbatim>\<open>parseFloat\<close> reads from a text is a parameter.
\<close>

definition stripNonNumeric :: "string \<Rightarrow> string" where
  "stripNonNumeric str = filter (\<lambda>c. is_digit c \<or> c = CHR ''.'' \<or> c = CHR '','') str"

definition parseMoney :: "(string \<Rightarrow> 'n) \<Rightarrow> string \<Rightarrow> 'n" where
  "parseMoney parseFloat str =
     (let numerical = stripNonNumeric str;
          lastCommaIndex = lastIndexOf (CHR '','') numerical
      in if 0 \<le> lastCommaIndex \<and> lastCommaIndex = int (length numerical) - 3
         then parseFloat (replace_first (CHR '','') ''.'' (replace_all (CHR ''.'') '''' numerical))
         else parseFloat (replace_all (CHR '','') '''' numerical))"

text \<open>
  The decoder of \<^verbatim>\<open>point\<close>, \<^verbatim>\<open>pg2GqlMapper[600].map\<close> (lines 462-470), on a string.
  \<^verbatim>\<open>f[0]\<close> and \<^verbatim>\<open>f[f.length - 1]\<close> are \<^verbatim>\<open>undefined\<close> on the empty string, so the
  test fails there. The destructuring \<^verbatim>\<open>[x, y]\<close> takes the first two parts; a part
  that is missing is \<^verbatim>\<open>undefined\<close>, further parts are dropped. A function body
  that ends without \<^verbatim>\<open>return\<close> yields \<^verbatim>\<open>undefined\<close>.
\<close>

definition pointMap :: "(string \<Rightarrow> 'n) \<Rightarrow> string \<Rightarrow> 'n jsval" where
  "pointMap parseFloat f =
     (if f \<noteq> [] \<and> hd f = CHR ''('' \<and> last f = CHR '')''
      then (let parts = map parseFloat (split_on (CHR '','') (take (length f - 2) (drop 1 f)))
            in Obj [(''x'', (case parts of [] \<Rightarrow> Undefined | x # _ \<Rightarrow> Num x)),
                    (''y'', (case parts of _ # y # _ \<Rightarrow> Num y | _ \<Rightarrow> Undefined))])
      else Undefined)"

text \<open>
  \<^verbatim>\<open>pgRangeParser.parse\<close> (lines 62-84). A bound is the pair of its inclusivity flag
  and its raw text; \<open>None\<close> is the \<^verbatim>\<open>null\<close> bound.
\<close>

datatype error =
    Error string "error option"
  | TypeError string

text \<open>
  \<open>Error m c\<close> is \<^verbatim>\<open>new Error(m)\<close> with its \<^verbatim>\<open>originalError\<close> \<open>c\<close> when one is attached;
  \<open>TypeError\<close> is raised by the engine itself (a property read on \<^verbatim>\<open>undefined\<close>, a call
  of something that is not a function) and its text stands for the engine's own.
\<close>

fun message :: "error \<Rightarrow> string" where
  "message (Error m _) = m"
| "message (TypeError m) = m"

type_synonym bound = "bool \<times> string"

definition pgRangeParser_parse :: "string \<Rightarrow> error + (bound option \<times> bound option)" where
  "pgRangeParser_parse str =
     (case split_on (CHR '','') str of
        [p0, p1] \<Rightarrow>
          Inr (if 1 < length p0 then Some (hd p0 = CHR ''['', drop 1 p0) else None,
               if 1 < length p1 then Some (last p1 = CHR '']'', butlast p1) else None)
      | _ \<Rightarrow> Inl (Error ''Invalid daterange'' None))"

section \<open>Type descriptors and the codec dispatch\<close>

text \<open>
  A type of the introspection results. The identifier is the OID, which introspection
  delivers as its decimal numeral, so a property key and \<^verbatim>\<open>parseInt(id, 10)\<close> are
  the number itself; \<open>None\<close> is a descriptor without \<^verbatim>\<open>id\<close>. The linked
  descriptors \<^verbatim>\<open>domainBaseType\<close> and \<^verbatim>\<open>arrayItemType\<close> are part of the value.
\<close>

datatype pgtype = PgType
  (t_id: "nat option")
  (t_name: string)
  (t_namespaceName: string)
  (t_description: "string option")
  (t_tagName: "string option")
  (t_type: string)
  (t_category: string)
  (t_isPgArray: bool)
  (t_arrayItemTypeId: "nat option")
  (t_arrayItemType: "pgtype option")
  (t_domainBaseTypeId: "nat option")
  (t_domainBaseType: "pgtype option")
  (t_rangeSubTypeId: "nat option")
  (t_enumVariants: "string list option")

text \<open>Query fragments of \<^verbatim>\<open>pg-sql2\<close>, as the constructor calls that build them.\<close>

datatype 'n sql =
    SqlNull
  | SqlValue "'n jsval"
  | SqlLiteral string
  | SqlIdentifier "string list"
  | SqlRaw string
  | SqlJoin "'n sql list" string
  | SqlFragment "'n sql list"

text \<open>
  An entry of \<^verbatim>\<open>pg2GqlMapper\<close>. \<open>Mapper\<close> is a registered \<^verbatim>\<open>{map, unmap}\<close> pair that
  does not call back into the dispatch (the JSON, interval, money and point
  entries); \<open>RangeMapper\<close> is the pair that lines 607-646 build for a range, a closure
  over \<^verbatim>\<open>subtype\<close> and \<^verbatim>\<open>type\<close>.
\<close>

datatype 'n mapper =
    Mapper "'n jsval \<Rightarrow> error + 'n jsval" "'n jsval \<Rightarrow> error + 'n sql"
  | RangeMapper "pgtype option" pgtype

text \<open>\<^verbatim>\<open>pg2GqlMapper[type.id]\<close>.\<close>

definition mapperFor :: "(nat \<Rightarrow> 'n mapper option) \<Rightarrow> pgtype \<Rightarrow> 'n mapper option" where
  "mapperFor M t = (case t_id t of None \<Rightarrow> None | Some i \<Rightarrow> M i)"

text \<open>
  \<^verbatim>\<open>xs.map(f)\<close> where \<open>f\<close> may throw: the first exception, in order, ends the
  traversal. \<open>None\<close> is a call that did not return within the recursion budget.
\<close>

fun traverse :: "('a \<Rightarrow> (error + 'b) option) \<Rightarrow> 'a list \<Rightarrow> (error + 'b list) option" where
  "traverse f [] = Some (Inr [])"
| "traverse f (x # xs) =
     (case f x of
        None \<Rightarrow> None
      | Some (Inl e) \<Rightarrow> Some (Inl e)
      | Some (Inr y) \<Rightarrow>
          (case traverse f xs of
             None \<Rightarrow> None
           | Some (Inl e) \<Rightarrow> Some (Inl e)
           | Some (Inr ys) \<Rightarrow> Some (Inr (y # ys))))"

definition rawTypes :: "nat list" where
  "rawTypes = [1186, 1082, 1114, 1184, 1083, 1266]"

text \<open>The parser \<^verbatim>\<open>pgParse\<close> chosen at lines 613-616 for the text of a bound.\<close>

definition pgParse ::
  "(nat option \<Rightarrow> string \<Rightarrow> error + 'n jsval) \<Rightarrow> pgtype \<Rightarrow> string \<Rightarrow> error + 'n jsval" where
  "pgParse getTypeParser subtype =
     (if (case t_id subtype of None \<Rightarrow> False | Some i \<Rightarrow> i \<in> set rawTypes)
      then (\<lambda>s. Inr (Str s)) else getTypeParser (t_id subtype))"

text \<open>One bound of the decoded range: \<^verbatim>\<open>{value: pg2gql(pgParse(b.value), subtype), inclusive}\<close>.\<close>

definition decodeBound ::
  "(string \<Rightarrow> error + 'n jsval) \<Rightarrow> ('n jsval \<Rightarrow> (error + 'n jsval) option) \<Rightarrow>
     bound option \<Rightarrow> (error + 'n jsval) option" where
  "decodeBound parse dec b =
     (case b of
        None \<Rightarrow> Some (Inr Null)
      | Some (inclusive, text) \<Rightarrow>
          (case parse text of
             Inl e \<Rightarrow> Some (Inl e)
           | Inr raw \<Rightarrow>
               (case dec raw of
                  None \<Rightarrow> None
                | Some (Inl e) \<Rightarrow> Some (Inl e)
                | Some (Inr v) \<Rightarrow> Some (Inr (Obj [(''value'', v), (''inclusive'', Bool inclusive)])))))"

text \<open>
  The \<^verbatim>\<open>map\<close> of a range (lines 608-632); \<open>dec st\<close> is \<^verbatim>\<open>v => pg2gql(v, subtype)\<close>. A wire
  value that is not a string has no \<^verbatim>\<open>split\<close>.
\<close>

definition rangeMap ::
  "(nat option \<Rightarrow> string \<Rightarrow> error + 'n jsval) \<Rightarrow> pgtype option \<Rightarrow>
     (pgtype \<Rightarrow> 'n jsval \<Rightarrow> (error + 'n jsval) option) \<Rightarrow> 'n jsval \<Rightarrow>
     (error + 'n jsval) option" where
  "rangeMap getTypeParser subtype dec pgRange =
     (case pgRange of
        Str str \<Rightarrow>
          (case pgRangeParser_parse str of
             Inl e \<Rightarrow> Some (Inl e)
           | Inr (start, end) \<Rightarrow>
               (case subtype of
                  None \<Rightarrow> Some (Inl (TypeError ''Cannot read property id of undefined''))
                | Some st \<Rightarrow>
                    (case decodeBound (pgParse getTypeParser st) (dec st) start of
                       None \<Rightarrow> None
                     | Some (Inl e) \<Rightarrow> Some (Inl e)
                     | Some (Inr s) \<Rightarrow>
                         (case decodeBound (pgParse getTypeParser st) (dec st) end of
                            None \<Rightarrow> None
                          | Some (Inl e) \<Rightarrow> Some (Inl e)
                          | Some (Inr e) \<Rightarrow> Some (Inr (Obj [(''start'', s), (''end'', e)]))))))
      | _ \<Rightarrow> Some (Inl (TypeError ''str.split is not a function'')))"

text \<open>
  \<^verbatim>\<open>pg2gql\<close> (lines 121-141). The recursion follows the codec table as well as the
  descriptor, so it is bounded by a call budget: \<open>pg2gql k\<close> may nest \<open>k\<close> calls,
  and \<open>None\<close> says that the budget was used up. A missing \<^verbatim>\<open>arrayItemType\<close> is
  \<^verbatim>\<open>undefined\<close>, on which the callee reads \<^verbatim>\<open>type.id\<close> unless the element is null.
\<close>

fun pg2gql ::
  "nat \<Rightarrow> (nat option \<Rightarrow> string \<Rightarrow> error + 'n jsval) \<Rightarrow> (nat \<Rightarrow> 'n mapper option) \<Rightarrow>
     'n jsval \<Rightarrow> pgtype \<Rightarrow> (error + 'n jsval) option" where
  "pg2gql 0 P M val t = None"
| "pg2gql (Suc k) P M val t =
     (if is_nullish val then Some (Inr val)
      else (case mapperFor M t of
        Some (Mapper f g) \<Rightarrow> Some (f val)
      | Some (RangeMapper subtype rt) \<Rightarrow>
          rangeMap P subtype (\<lambda>st v. pg2gql k P M v st) val
      | None \<Rightarrow>
          (case t_domainBaseType t of
             Some b \<Rightarrow> pg2gql k P M val b
           | None \<Rightarrow>
               if t_isPgArray t then
                 (case val of
                    Arr vs \<Rightarrow>
                      (case traverse
                              (\<lambda>v. case t_arrayItemType t of
                                     Some it \<Rightarrow> pg2gql k P M v it
                                   | None \<Rightarrow>
                                       if is_nullish v then Some (Inr v)
                                       else Some (Inl (TypeError ''Cannot read property id of undefined'')))
                              vs of
                         None \<Rightarrow> None
                       | Some (Inl e) \<Rightarrow> Some (Inl e)
                       | Some (Inr ws) \<Rightarrow> Some (Inr (Arr ws)))
                  | _ \<Rightarrow>
                      Some (Inl (Error
                        (''Expected array when converting PostgreSQL data into GraphQL; failing type: ''
                           @ [CHR 0x27] @ t_namespaceName t @ ''.'' @ t_name t @ [CHR 0x27]) None)))
               else Some (Inr val))))"

text \<open>Truthiness and property reads, as far as the range encoder uses them.\<close>

fun truthy :: "('n \<Rightarrow> bool) \<Rightarrow> 'n jsval \<Rightarrow> bool" where
  "truthy nt Undefined = False"
| "truthy nt Null = False"
| "truthy nt (Bool b) = b"
| "truthy nt (Num n) = nt n"
| "truthy nt (Str s) = (s \<noteq> [])"
| "truthy nt (Arr _) = True"
| "truthy nt (Obj _) = True"

fun getProp :: "'n jsval \<Rightarrow> string \<Rightarrow> 'n jsval" where
  "getProp (Obj kvs) k = (case map_of kvs k of None \<Rightarrow> Undefined | Some v \<Rightarrow> v)"
| "getProp _ k = Undefined"

text \<open>
  The \<^verbatim>\<open>unmap\<close> of a range (lines 633-645); \<open>enc\<close> is \<^verbatim>\<open>v => gql2pg(v, subtype)\<close>. A query
  fragment is an object, hence truthy, so \<^verbatim>\<open>|| sql.null\<close> only applies to a falsy bound.
\<close>

definition rangeUnmap ::
  "('n \<Rightarrow> bool) \<Rightarrow> pgtype \<Rightarrow> ('n jsval \<Rightarrow> (error + 'n sql) option) \<Rightarrow> 'n jsval \<Rightarrow>
     (error + 'n sql) option" where
  "rangeUnmap nt rt enc val =
     (let start = getProp val ''start''; end = getProp val ''end''
      in case (if truthy nt start then enc (getProp start ''value'') else Some (Inr SqlNull)) of
           None \<Rightarrow> None
         | Some (Inl e) \<Rightarrow> Some (Inl e)
         | Some (Inr lower) \<Rightarrow>
             (case (if truthy nt end then enc (getProp end ''value'') else Some (Inr SqlNull)) of
                None \<Rightarrow> None
              | Some (Inl e) \<Rightarrow> Some (Inl e)
              | Some (Inr upper) \<Rightarrow>
                  Some (Inr (SqlFragment
                    [SqlIdentifier [t_namespaceName rt, t_name rt], SqlRaw ''('', lower,
                     SqlRaw '', '', upper, SqlRaw '', '',
                     SqlLiteral
                       ((if truthy nt start \<and> \<not> truthy nt (getProp start ''inclusive'') then ''('' else ''['')
                        @ (if truthy nt end \<and> \<not> truthy nt (getProp end ''inclusive'') then '')'' else '']'')),
                     SqlRaw '')'']))))"

text \<open>\<^verbatim>\<open>gql2pg\<close> (lines 142-167), with the same call budget as \<open>pg2gql\<close>.\<close>

fun gql2pg ::
  "nat \<Rightarrow> ('n \<Rightarrow> bool) \<Rightarrow> (nat \<Rightarrow> 'n mapper option) \<Rightarrow> 'n jsval \<Rightarrow> pgtype \<Rightarrow>
     (error + 'n sql) option" where
  "gql2pg 0 nt M val t = None"
| "gql2pg (Suc k) nt M val t =
     (if is_nullish val then Some (Inr SqlNull)
      else (case mapperFor M t of
        Some (Mapper f g) \<Rightarrow> Some (g val)
      | Some (RangeMapper subtype rt) \<Rightarrow>
          rangeUnmap nt rt
            (\<lambda>v. case subtype of
                   Some st \<Rightarrow> gql2pg k nt M v st
                 | None \<Rightarrow>
                     if is_nullish v then Some (Inr SqlNull)
                     else Some (Inl (TypeError ''Cannot read property id of undefined'')))
            val
      | None \<Rightarrow>
          (case t_domainBaseType t of
             Some b \<Rightarrow> gql2pg k nt M val b
           | None \<Rightarrow>
               if t_isPgArray t then
                 (case val of
                    Arr vs \<Rightarrow>
                      (case traverse
                              (\<lambda>v. case t_arrayItemType t of
                                     Some it \<Rightarrow> gql2pg k nt M v it
                                   | None \<Rightarrow>
                                       if is_nullish v then Some (Inr SqlNull)
                                       else Some (Inl (TypeError ''Cannot read property id of undefined'')))
                              vs of
                         None \<Rightarrow> None
                       | Some (Inl e) \<Rightarrow> Some (Inl e)
                       | Some (Inr ws) \<Rightarrow>
                           Some (Inr (SqlFragment
                             [SqlRaw ''array['', SqlJoin ws '', '', SqlRaw '']::'',
                              SqlIdentifier [t_namespaceName t], SqlRaw ''.'',
                              SqlIdentifier [t_name t]])))
                  | _ \<Rightarrow>
                      Some (Inl (Error
                        (''Expected array when converting GraphQL data into PostgreSQL data; failing type: ''
                           @ [CHR 0x27] @ t_namespaceName t @ ''.'' @ t_name t @ [CHR 0x27]
                           @ '' (type: object)'') None)))
               else Some (Inr (SqlValue val)))))"

section \<open>Node identifiers\<close>

text \<open>
  The closure state of NodePlugin's build hook (lines 78-80). A GraphQL type reaches
  \<^verbatim>\<open>getNodeAlias\<close> as the object itself; as a property key and under
  \<^verbatim>\<open>JSON.stringify\<close> it stands for its string form, its name, which is what the
  model passes. \<^verbatim>\<open>JSON.stringify\<close> and the base64 encoding of a \<^verbatim>\<open>Buffer\<close> are
  parameters.

  The two tables are object literals \<^verbatim>\<open>{}\<close>, so a read also finds the properties that
  every object inherits from \<^verbatim>\<open>Object.prototype\<close>. Their values are functions, except
  for \<^verbatim>\<open>__proto__\<close>, whose value is the prototype object itself; all of them are
  truthy and none is a string.
\<close>

definition inheritedProperties :: "string list" where
  "inheritedProperties =
     [''constructor'', ''hasOwnProperty'', ''isPrototypeOf'', ''propertyIsEnumerable'',
      ''toLocaleString'', ''toString'', ''valueOf'', ''__proto__'', ''__defineGetter__'',
      ''__defineSetter__'', ''__lookupGetter__'', ''__lookupSetter__'']"

text \<open>
  An element of the array that is serialized: a value, a function inherited under the
  given name, or \<^verbatim>\<open>Object.prototype\<close>.
\<close>

datatype 'n element =
    Value "'n jsval"
  | InheritedFunction string
  | ObjectPrototype

text \<open>The own properties of the two tables.\<close>

record nodeState =
  nodeAliasByTypeName :: "string \<Rightarrow> string option"
  nodeTypeNameByAlias :: "string \<Rightarrow> string option"

definition emptyNodeState :: nodeState where
  "emptyNodeState = \<lparr>nodeAliasByTypeName = Map.empty, nodeTypeNameByAlias = Map.empty\<rparr>"

text \<open>
  \<^verbatim>\<open>obj[key] = str\<close> on one of the tables. It creates or replaces the own property,
  except under the key \<^verbatim>\<open>__proto__\<close>: that assignment runs the inherited setter, which
  ignores a string.
\<close>

definition setProperty :: "string \<Rightarrow> string \<Rightarrow> (string \<Rightarrow> string option) \<Rightarrow> string \<Rightarrow> string option" where
  "setProperty key str obj = (if key = ''__proto__'' then obj else obj(key \<mapsto> str))"

definition setNodeAlias :: "string \<Rightarrow> string \<Rightarrow> nodeState \<Rightarrow> nodeState" where
  "setNodeAlias typeName alias s =
     s\<lparr>nodeAliasByTypeName := setProperty typeName alias (nodeAliasByTypeName s),
       nodeTypeNameByAlias := setProperty alias typeName (nodeTypeNameByAlias s)\<rparr>"

text \<open>
  \<^verbatim>\<open>nodeAliasByTypeName[typeName] || typeName\<close>: an own property that is the empty
  string is falsy; without an own property the read finds what the table inherits
  under that name, if anything.
\<close>

definition getNodeAlias :: "nodeState \<Rightarrow> string \<Rightarrow> 'n element" where
  "getNodeAlias s typeName =
     (case nodeAliasByTypeName s typeName of
        Some alias \<Rightarrow> if alias \<noteq> [] then Value (Str alias) else Value (Str typeName)
      | None \<Rightarrow>
          if typeName = ''__proto__'' then ObjectPrototype
          else if typeName \<in> set inheritedProperties then InheritedFunction typeName
          else Value (Str typeName))"

text \<open>
  \<^verbatim>\<open>base64(JSON.stringify([this.getNodeAlias(Type), ...identifiers]))\<close>; \<open>stringify\<close> is
  \<^verbatim>\<open>JSON.stringify\<close> on the array of the given elements.
\<close>

definition getNodeIdForTypeAndIdentifiers ::
  "(string \<Rightarrow> string) \<Rightarrow> ('n element list \<Rightarrow> string) \<Rightarrow> nodeState \<Rightarrow> string \<Rightarrow> 'n jsval list \<Rightarrow> string" where
  "getNodeIdForTypeAndIdentifiers base64 stringify s Type identifiers =
     base64 (stringify (getNodeAlias s Type # map Value identifiers))"

section \<open>Inflection\<close>

text \<open>
  \<^verbatim>\<open>preventEmptyResult\<close> (PgBasicsPlugin.js) wraps every inflector: a result that is
  not a non-empty string raises. \<open>shown\<close> is \<^verbatim>\<open>String(result)\<close>. The message ends with
  \<^verbatim>\<open>util.inspect(args)\<close>, a text that Node composes from the arguments; the model
  stops before it.
\<close>

definition inflectorError :: "string \<Rightarrow> string \<Rightarrow> error" where
  "inflectorError key shown =
     Error (''Inflector for '' @ [CHR 0x27] @ key @ [CHR 0x27] @ '' returned '' @ [CHR 0x27]
            @ shown @ [CHR 0x27] @ ''; expected non-empty string'' @ [CHR 0x0A]
            @ ''See: https://github.com/graphile/graphile-build/blob/master/packages/''
            @ ''graphile-build-pg/src/plugins/PgBasicsPlugin.js'' @ [CHR 0x0A]
            @ ''Arguments passed to '' @ key @ '':'' @ [CHR 0x0A]) None"

text \<open>
  \<^verbatim>\<open>String(v)\<close> for the value \<open>v\<close> that an object inherits under a name: the text of a
  built-in function (the one under \<^verbatim>\<open>constructor\<close> is \<^verbatim>\<open>Object\<close>), or of the prototype
  object.
\<close>

definition inheritedText :: "string \<Rightarrow> string" where
  "inheritedText name =
     (if name = ''__proto__'' then ''[object Object]''
      else ''function '' @ (if name = ''constructor'' then ''Object'' else name)
           @ ''() { [native code] }'')"

definition preventEmptyResult :: "string \<Rightarrow> string \<Rightarrow> error + string" where
  "preventEmptyResult key result =
     (if result = [] then Inl (inflectorError key result) else Inr result)"

text \<open>
  The three replacements on asterisks of \<^verbatim>\<open>enumName\<close>. The second,
  \<^verbatim>\<open>/^(_?)_+ASTERISK/\<close>, matches a run of \<open>k \<ge> 1\<close> leading underscores followed by
  \<^verbatim>\<open>ASTERISK\<close> and keeps one underscore when \<open>k \<ge> 2\<close>. The third,
  \<^verbatim>\<open>/ASTERISK_(_?)_*$/\<close>, matches \<^verbatim>\<open>ASTERISK\<close> followed by a run of \<open>k \<ge> 1\<close> underscores
  that ends the string, and keeps one underscore when \<open>k \<ge> 2\<close>.
\<close>

definition leadingAsterisk :: "string \<Rightarrow> string" where
  "leadingAsterisk s =
     (let k = length (takeWhile (\<lambda>c. c = CHR ''_'') s); rest = drop k s
      in if 1 \<le> k \<and> take 8 rest = ''ASTERISK''
         then (if 2 \<le> k then ''_'' else []) @ rest else s)"

definition trailingAsterisk :: "string \<Rightarrow> string" where
  "trailingAsterisk s =
     (let k = length (takeWhile (\<lambda>c. c = CHR ''_'') (rev s)); body = take (length s - k) s
      in if 1 \<le> k \<and> 8 \<le> length body \<and> drop (length body - 8) body = ''ASTERISK''
         then body @ (if 2 \<le> k then ''_'' else []) else s)"

text \<open>The table of symbol names (lines 418-474 of the inflection plugin), in source order.\<close>

definition enumSymbols :: "(string \<times> string) list" where
  "enumSymbols =
     [(''>'', ''GREATER_THAN''), (''>='', ''GREATER_THAN_OR_EQUAL''), (''='', ''EQUAL''),
      (''!='', ''NOT_EQUAL''), (''<>'', ''DIFFERENT''), (''<='', ''LESS_THAN_OR_EQUAL''),
      (''<'', ''LESS_THAN''),
      (''~~'', ''LIKE''), (''~~*'', ''ILIKE''), (''!~~'', ''NOT_LIKE''), (''!~~*'', ''NOT_ILIKE''),
      (''~'', ''TILDE''), (''~*'', ''TILDE_ASTERISK''), (''!~'', ''NOT_TILDE''),
      (''!~*'', ''NOT_TILDE_ASTERISK''),
      (''%'', ''PERCENT''), (''+'', ''PLUS''), (''-'', ''MINUS''), (''/'', ''SLASH''),
      ([CHR 0x5C], ''BACKSLASH''), (''_'', ''UNDERSCORE''), (''#'', ''POUND''),
      ([CHR 0xA3], ''STERLING''), (''$'', ''DOLLAR''), (''&'', ''AMPERSAND''), (''@'', ''AT''),
      ([CHR 0x27], ''APOSTROPHE''), ([CHR 0x22], ''QUOTE''), ([CHR 0x60], ''BACKTICK''),
      ('':'', ''COLON''), ('';'', ''SEMICOLON''), (''!'', ''EXCLAMATION_POINT''),
      (''?'', ''QUESTION_MARK''), ('','', ''COMMA''), (''.'', ''DOT''), (''^'', ''CARET''),
      (''|'', ''BAR''), (''['', ''OPEN_BRACKET''), ('']'', ''CLOSE_BRACKET''),
      (''('', ''OPEN_PARENTHESIS''), ('')'', ''CLOSE_PARENTHESIS''),
      (''{'', ''OPEN_BRACE''), (''}'', ''CLOSE_BRACE'')]"

text \<open>
  \<^verbatim>\<open>enumName\<close> as the build calls it, under \<^verbatim>\<open>preventEmptyResult\<close>. No entry of the
  table is the empty string, so \<^verbatim>\<open>|| value\<close> applies exactly when the read finds
  nothing. The table is an object literal, so the read also finds what every object
  inherits (\<open>inheritedProperties\<close>): a value that is truthy and not a string.
\<close>

definition enumName :: "string \<Rightarrow> error + string" where
  "enumName inValue =
     (if inValue = [] then preventEmptyResult ''enumName'' ''_EMPTY_''
      else (let value = trailingAsterisk (leadingAsterisk (replace_all (CHR ''*'') ''_ASTERISK_'' inValue))
            in case map_of enumSymbols value of
                 Some name \<Rightarrow> preventEmptyResult ''enumName'' name
               | None \<Rightarrow>
                   if value \<in> set inheritedProperties
                   then Inl (inflectorError ''enumName'' (inheritedText value))
                   else preventEmptyResult ''enumName'' value))"

text \<open>
  The \<^verbatim>\<open>values\<close> of the enum type (lines 521-526): a \<^verbatim>\<open>reduce\<close> that assigns
  \<^verbatim>\<open>memo[inflection.enumName(value)] = {value: value}\<close>. \<open>assign\<close> keeps the properties
  in the order in which they were created: an assignment to a key that is already
  there replaces its value. (No key is an inherited name: \<^verbatim>\<open>enumName\<close> raises on those.)
\<close>

fun assign :: "string \<Rightarrow> 'v \<Rightarrow> (string \<times> 'v) list \<Rightarrow> (string \<times> 'v) list" where
  "assign k v [] = [(k, v)]"
| "assign k v ((k', v') # kvs) = (if k = k' then (k, v) # kvs else (k', v') # assign k v kvs)"

fun enumValues :: "string list \<Rightarrow> (string \<times> string) list \<Rightarrow> error + (string \<times> string) list" where
  "enumValues [] memo = Inr memo"
| "enumValues (value # rest) memo =
     (case enumName value of
        Inl e \<Rightarrow> Inl e
      | Inr name \<Rightarrow> enumValues rest (assign name value memo))"

text \<open>
  The order in which an object lists its own properties, which is the order of the
  members of the enum type: first the keys that are array indices (the decimal text,
  without a leading zero, of an integer below \<open>2\<^sup>3\<^sup>2 - 1\<close>) in ascending order, then
  the other keys in the order of their creation.
\<close>

definition decimalValue :: "string \<Rightarrow> nat" where
  "decimalValue ds = foldl (\<lambda>n c. 10 * n + (of_char c - 48)) 0 ds"

definition isArrayIndex :: "string \<Rightarrow> bool" where
  "isArrayIndex k \<longleftrightarrow>
     k \<noteq> [] \<and> list_all is_digit k \<and> (k = ''0'' \<or> hd k \<noteq> CHR ''0'') \<and>
     decimalValue k < 4294967295"

definition ownEntries :: "(string \<times> 'v) list \<Rightarrow> (string \<times> 'v) list" where
  "ownEntries kvs =
     sort_key (\<lambda>kv. decimalValue (fst kv)) (filter (\<lambda>kv. isArrayIndex (fst kv)) kvs)
     @ filter (\<lambda>kv. \<not> isArrayIndex (fst kv)) kvs"

section \<open>Schema types\<close>

text \<open>
  The objects of \<^verbatim>\<open>graphql\<close> that the plugin builds. The first component is the
  identity of the object: \<^verbatim>\<open>===\<close> on two types compares it, and every \<^verbatim>\<open>new\<close> takes
  the next free one. A field is its name and type (descriptions of fields are
  left out). \<open>Alias r p n d\<close> is \<^verbatim>\<open>Object.assign(Object.create(p), {name: n, description: d})\<close>:
  an object with the two own properties and the prototype \<open>p\<close>.
\<close>

datatype gqltype =
    GraphQLScalarType nat string "string option"
  | GraphQLEnumType nat string "string option" "(string \<times> string) list"
  | GraphQLObjectType nat string "string option" "(string \<times> gqltype) list"
  | GraphQLInputObjectType nat string "string option" "(string \<times> gqltype) list"
  | GraphQLList nat gqltype
  | GraphQLNonNull nat gqltype
  | Alias nat gqltype string "string option"

fun ref :: "gqltype \<Rightarrow> nat" where
  "ref (GraphQLScalarType r _ _) = r"
| "ref (GraphQLEnumType r _ _ _) = r"
| "ref (GraphQLObjectType r _ _ _) = r"
| "ref (GraphQLInputObjectType r _ _ _) = r"
| "ref (GraphQLList r _) = r"
| "ref (GraphQLNonNull r _) = r"
| "ref (Alias r _ _ _) = r"

text \<open>
  Property reads that follow the prototype chain. A property of a type is a
  string, \<^verbatim>\<open>null\<close>/\<^verbatim>\<open>undefined\<close>, a type, a table of members or a table of fields.
\<close>

datatype propval =
    PString string
  | PMissing
  | PType gqltype
  | PValues "(string \<times> string) list"
  | PFields "(string \<times> gqltype) list"

definition optString :: "string option \<Rightarrow> propval" where
  "optString d = (case d of None \<Rightarrow> PMissing | Some t \<Rightarrow> PString t)"

fun getTypeProp :: "gqltype \<Rightarrow> string \<Rightarrow> propval" where
  "getTypeProp (GraphQLScalarType r n d) k =
     (if k = ''name'' then PString n else if k = ''description'' then optString d else PMissing)"
| "getTypeProp (GraphQLEnumType r n d vs) k =
     (if k = ''name'' then PString n else if k = ''description'' then optString d
      else if k = ''values'' then PValues vs else PMissing)"
| "getTypeProp (GraphQLObjectType r n d fs) k =
     (if k = ''name'' then PString n else if k = ''description'' then optString d
      else if k = ''fields'' then PFields fs else PMissing)"
| "getTypeProp (GraphQLInputObjectType r n d fs) k =
     (if k = ''name'' then PString n else if k = ''description'' then optString d
      else if k = ''fields'' then PFields fs else PMissing)"
| "getTypeProp (GraphQLList r t) k = (if k = ''ofType'' then PType t else PMissing)"
| "getTypeProp (GraphQLNonNull r t) k = (if k = ''ofType'' then PType t else PMissing)"
| "getTypeProp (Alias r p n d) k =
     (if k = ''name'' then PString n else if k = ''description'' then optString d
      else getTypeProp p k)"

text \<open>\<^verbatim>\<open>type.name\<close> inside a template literal: \<^verbatim>\<open>undefined\<close> prints as its name.\<close>

definition nameText :: "gqltype \<Rightarrow> string" where
  "nameText g = (case getTypeProp g ''name'' of PString n \<Rightarrow> n | _ \<Rightarrow> ''undefined'')"

text \<open>
  The class of the object at the end of the prototype chain decides
  \<^verbatim>\<open>instanceof\<close> and which \<^verbatim>\<open>toString\<close> is inherited.
\<close>

fun isWrapping :: "gqltype \<Rightarrow> bool" where
  "isWrapping (GraphQLList _ _) = True"
| "isWrapping (GraphQLNonNull _ _) = True"
| "isWrapping (Alias _ p _ _) = isWrapping p"
| "isWrapping _ = False"

text \<open>
  \<^verbatim>\<open>String(type)\<close>: a named type prints \<^verbatim>\<open>this.name\<close>, a list
  \<^verbatim>\<open>"[" + String(this.ofType) + "]"\<close>, a non-null type \<^verbatim>\<open>String(this.ofType) + "!"\<close>.
\<close>

fun toString :: "gqltype \<Rightarrow> string" where
  "toString (GraphQLScalarType r n d) = n"
| "toString (GraphQLEnumType r n d vs) = n"
| "toString (GraphQLObjectType r n d fs) = n"
| "toString (GraphQLInputObjectType r n d fs) = n"
| "toString (GraphQLList r t) = ''['' @ toString t @ '']''"
| "toString (GraphQLNonNull r t) = toString t @ ''!''"
| "toString (Alias r p n d) = (if isWrapping p then toString p else n)"

text \<open>
  The types that exist before any resolution, with their identities in creation
  order. The four scalars of \<^verbatim>\<open>graphql\<close> and the two of \<^verbatim>\<open>../GraphQLJSON\<close> are
  defined outside this plugin; the model keeps their names only.
\<close>

definition GraphQLString :: gqltype where "GraphQLString = GraphQLScalarType 0 ''String'' None"
definition GraphQLInt :: gqltype where "GraphQLInt = GraphQLScalarType 1 ''Int'' None"
definition GraphQLFloat :: gqltype where "GraphQLFloat = GraphQLScalarType 2 ''Float'' None"
definition GraphQLBoolean :: gqltype where "GraphQLBoolean = GraphQLScalarType 3 ''Boolean'' None"
definition GraphQLJSON :: gqltype where "GraphQLJSON = GraphQLScalarType 4 ''JSON'' None"
definition GraphQLJson :: gqltype where "GraphQLJson = GraphQLScalarType 5 ''Json'' None"

text \<open>\<^verbatim>\<open>makeIntervalFields\<close> (lines 186-214).\<close>

definition makeIntervalFields :: "(string \<times> gqltype) list" where
  "makeIntervalFields =
     [(''seconds'', GraphQLFloat), (''minutes'', GraphQLInt), (''hours'', GraphQLInt),
      (''days'', GraphQLInt), (''months'', GraphQLInt), (''years'', GraphQLInt)]"

definition GQLInterval :: gqltype where
  "GQLInterval = GraphQLObjectType 6 ''Interval''
     (Some ''An interval of time that has passed where the smallest distinct unit is a second.'')
     makeIntervalFields"

definition GQLIntervalInput :: gqltype where
  "GQLIntervalInput = GraphQLInputObjectType 7 ''IntervalInput''
     (Some ''An interval of time that has passed where the smallest distinct unit is a second.'')
     makeIntervalFields"

definition BigFloat :: gqltype where
  "BigFloat = GraphQLScalarType 8 ''BigFloat''
     (Some ''A floating point number that requires more precision than IEEE 754 binary 64'')"

definition BitString :: gqltype where
  "BitString = GraphQLScalarType 9 ''BitString''
     (Some ''A string representing a series of binary bits'')"

definition SimpleDate :: gqltype where
  "SimpleDate = GraphQLScalarType 10 ''Date'' (Some ''The day, does not include a time.'')"

definition SimpleDatetime :: gqltype where
  "SimpleDatetime = GraphQLScalarType 11 ''Datetime''
     (Some ''A point in time as described by the [ISO 8601](https://en.wikipedia.org/wiki/ISO_8601) standard. May or may not include a timezone.'')"

definition SimpleTime :: gqltype where
  "SimpleTime = GraphQLScalarType 12 ''Time''
     (Some ''The exact time of day, does not include the date. May or may not have a timezone offset.'')"

definition SimpleJSON :: "bool \<Rightarrow> gqltype" where
  "SimpleJSON pgLegacyJsonUuid = GraphQLScalarType 13 (if pgLegacyJsonUuid then ''Json'' else ''JSON'')
     (Some ''A JavaScript object encoded in the JSON format as specified by [ECMA-404](http://www.ecma-international.org/publications/files/ECMA-ST/ECMA-404.pdf).'')"

definition SimpleUUID :: "bool \<Rightarrow> gqltype" where
  "SimpleUUID pgLegacyJsonUuid = GraphQLScalarType 14 (if pgLegacyJsonUuid then ''Uuid'' else ''UUID'')
     (Some ''A universally unique identifier as defined by [RFC 4122](https://tools.ietf.org/html/rfc4122).'')"

definition JSONType :: "bool \<Rightarrow> bool \<Rightarrow> gqltype" where
  "JSONType pgExtendedTypes pgLegacyJsonUuid =
     (if pgExtendedTypes then (if pgLegacyJsonUuid then GraphQLJson else GraphQLJSON)
      else SimpleJSON pgLegacyJsonUuid)"

definition Point :: gqltype where
  "Point = GraphQLObjectType 17 ''Point'' None
     [(''x'', GraphQLNonNull 15 GraphQLFloat), (''y'', GraphQLNonNull 16 GraphQLFloat)]"

definition PointInput :: gqltype where
  "PointInput = GraphQLInputObjectType 20 ''PointInput'' None
     [(''x'', GraphQLNonNull 18 GraphQLFloat), (''y'', GraphQLNonNull 19 GraphQLFloat)]"

definition BigInt :: gqltype where
  "BigInt = GraphQLScalarType 21 ''BigInt''
     (Some ''A signed eight-byte integer. The upper big integer values are greater then the max value for a JavaScript number. Therefore all big integers will be output as strings and not numbers.'')"

text \<open>\<^verbatim>\<open>oidLookup\<close> and \<^verbatim>\<open>oidInputLookup\<close> (lines 378-413).\<close>

definition oidLookup :: "bool \<Rightarrow> bool \<Rightarrow> nat \<Rightarrow> gqltype option" where
  "oidLookup pgExtendedTypes pgLegacyJsonUuid =
     map_of
       [(20, BigInt), (21, GraphQLInt), (23, GraphQLInt), (700, GraphQLFloat), (701, GraphQLFloat),
        (1700, BigFloat), (790, GraphQLFloat),
        (1186, GQLInterval), (1082, SimpleDate), (1114, SimpleDatetime), (1184, SimpleDatetime),
        (1083, SimpleTime), (1266, SimpleTime),
        (114, JSONType pgExtendedTypes pgLegacyJsonUuid),
        (3802, JSONType pgExtendedTypes pgLegacyJsonUuid),
        (2950, SimpleUUID pgLegacyJsonUuid),
        (1560, BitString), (1562, BitString),
        (18, GraphQLString), (25, GraphQLString), (1043, GraphQLString),
        (600, Point)]"

definition oidInputLookup :: "nat \<Rightarrow> gqltype option" where
  "oidInputLookup = map_of [(1186, GQLIntervalInput), (600, PointInput)]"

section \<open>The type bridge\<close>

datatype tweak = TweakToText | TweakToJson

text \<open>
  A generator registered through \<^verbatim>\<open>pgRegisterGqlTypeByTypeId\<close>, seen through what it does
  to this plugin: the types it passes to its \<^verbatim>\<open>set\<close> callback, in order, and then
  the type it returns (\<open>None\<close> for a falsy result) or the error it throws.
\<close>

datatype generator = Generator "gqltype list" "error + gqltype option"

text \<open>
  What the build hook takes from its surroundings: the introspection results, the
  type registry of \<^verbatim>\<open>graphile-build\<close> (\<^verbatim>\<open>addType\<close>, \<^verbatim>\<open>getTypeByName\<close> over a registry of
  type \<open>'r\<close>), the case conversion of the base inflection, two predicates of
  \<^verbatim>\<open>graphql\<close>, and the two options of the plugin.
\<close>

record 'r env =
  typeList :: "pgtype list"
  typeById :: "nat \<Rightarrow> pgtype option"
  addType :: "'r \<Rightarrow> gqltype \<Rightarrow> error + 'r"
  getTypeByName :: "'r \<Rightarrow> string \<Rightarrow> gqltype option"
  upperCamelCase :: "string \<Rightarrow> string"
  isInputType :: "gqltype \<Rightarrow> bool"
  getNamedType :: "gqltype \<Rightarrow> gqltype"
  pgExtendedTypes :: bool
  pgLegacyJsonUuid :: bool

text \<open>The variables that the closures of the build hook share (lines 113-120, 258, 476).\<close>

record ('r, 'n) state =
  depth :: nat
  gqlTypeByTypeId :: "nat \<Rightarrow> gqltype option"
  gqlInputTypeByTypeId :: "nat \<Rightarrow> gqltype option"
  gqlTypeByTypeIdGenerator :: "nat \<Rightarrow> generator option"
  gqlInputTypeByTypeIdGenerator :: "nat \<Rightarrow> generator option"
  pg2GqlMapper :: "nat \<Rightarrow> 'n mapper option"
  pgTweaksByTypeId :: "nat \<Rightarrow> tweak option"
  allTypes :: 'r
  nextRef :: nat

datatype 'a outcome = Return 'a | Throw error

text \<open>\<^verbatim>\<open>pgTypeById\<close> (lines 231-234): a later type of the same id replaces an earlier one.\<close>

definition pgTypeById :: "'r env \<Rightarrow> nat \<Rightarrow> pgtype option" where
  "pgTypeById E i = find (\<lambda>t. t_id t = Some i) (rev (typeList E))"

text \<open>The inflectors that the bridge calls, each under \<^verbatim>\<open>preventEmptyResult\<close>.\<close>

definition inflTypeName :: "pgtype \<Rightarrow> error + string" where
  "inflTypeName t =
     preventEmptyResult ''_typeName''
       (case t_tagName t of None \<Rightarrow> t_name t | Some n \<Rightarrow> if n \<noteq> [] then n else t_name t)"

definition enumType :: "'r env \<Rightarrow> pgtype \<Rightarrow> error + string" where
  "enumType E t =
     (case inflTypeName t of Inl e \<Rightarrow> Inl e
      | Inr n \<Rightarrow> preventEmptyResult ''enumType'' (upperCamelCase E n))"

definition domainType :: "'r env \<Rightarrow> pgtype \<Rightarrow> error + string" where
  "domainType E t =
     (case inflTypeName t of Inl e \<Rightarrow> Inl e
      | Inr n \<Rightarrow> preventEmptyResult ''domainType'' (upperCamelCase E n))"

definition inputType :: "'r env \<Rightarrow> string \<Rightarrow> error + string" where
  "inputType E typeName = preventEmptyResult ''inputType'' (upperCamelCase E (typeName @ ''-input''))"

definition rangeBoundType :: "'r env \<Rightarrow> string \<Rightarrow> error + string" where
  "rangeBoundType E typeName =
     preventEmptyResult ''rangeBoundType'' (upperCamelCase E (typeName @ ''-range-bound''))"

definition rangeType :: "'r env \<Rightarrow> string \<Rightarrow> error + string" where
  "rangeType E typeName = preventEmptyResult ''rangeType'' (upperCamelCase E (typeName @ ''-range''))"

text \<open>The explicit overrides (lines 503-515).\<close>

definition explicitOverrides :: "'r env \<Rightarrow> nat \<Rightarrow> ('r, 'n) state \<Rightarrow> ('r, 'n) state" where
  "explicitOverrides E i s =
     (let s1 = (if gqlTypeByTypeId s i = None
                then (case oidLookup (pgExtendedTypes E) (pgLegacyJsonUuid E) i of
                        Some gqlType \<Rightarrow> s\<lparr>gqlTypeByTypeId := (gqlTypeByTypeId s)(i \<mapsto> gqlType)\<rparr>
                      | None \<Rightarrow> s)
                else s)
      in if gqlInputTypeByTypeId s1 i = None
         then (case oidInputLookup i of
                 Some gqlInputType \<Rightarrow>
                   s1\<lparr>gqlInputTypeByTypeId := (gqlInputTypeByTypeId s1)(i \<mapsto> gqlInputType)\<rparr>
               | None \<Rightarrow> s1)
         else s1)"

text \<open>Enums (lines 516-528). \<^verbatim>\<open>enumVariants\<close> is \<^verbatim>\<open>null\<close> on a type that has none.\<close>

definition enumPhase ::
  "'r env \<Rightarrow> pgtype \<Rightarrow> nat \<Rightarrow> ('r, 'n) state \<Rightarrow> unit outcome \<times> ('r, 'n) state" where
  "enumPhase E t i s =
     (if gqlTypeByTypeId s i = None \<and> t_type t = ''e'' then
        (case enumType E t of
           Inl e \<Rightarrow> (Throw e, s)
         | Inr name \<Rightarrow>
             (case t_enumVariants t of
                None \<Rightarrow> (Throw (TypeError ''Cannot read property reduce of null''), s)
              | Some variants \<Rightarrow>
                  (case enumValues variants [] of
                     Inl e \<Rightarrow> (Throw e, s)
                   | Inr values \<Rightarrow>
                       (Return (),
                        s\<lparr>gqlTypeByTypeId := (gqlTypeByTypeId s)
                             (i \<mapsto> GraphQLEnumType (nextRef s) name (t_description t)
                                            (ownEntries values)),
                          nextRef := nextRef s + 1\<rparr>))))
      else (Return (), s))"

text \<open>
  Ranges (lines 529-647); \<open>rec\<close> is \<^verbatim>\<open>enforceGqlTypeByPgType\<close>. What \<open>rec\<close> returns is
  an object, so the test \<^verbatim>\<open>!gqlRangeSubType\<close> never fires.
\<close>

definition rangeBoundDescription :: string where
  "rangeBoundDescription =
     ''The value at one end of a range. A range can either include this value, or not.''"

definition rangePhase ::
  "(pgtype option \<Rightarrow> ('r, 'n) state \<Rightarrow> (gqltype outcome \<times> ('r, 'n) state) option) \<Rightarrow>
     'r env \<Rightarrow> pgtype \<Rightarrow> nat \<Rightarrow> ('r, 'n) state \<Rightarrow> (unit outcome \<times> ('r, 'n) state) option" where
  "rangePhase rec E t i s =
     (if gqlTypeByTypeId s i = None \<and> t_type t = ''r'' then
        (let subtype = (case t_rangeSubTypeId t of None \<Rightarrow> None | Some j \<Rightarrow> typeById E j)
         in case rec subtype s of
              None \<Rightarrow> None
            | Some (Throw e, s1) \<Rightarrow> Some (Throw e, s1)
            | Some (Return gqlRangeSubType, s1) \<Rightarrow>
                (let finish = (\<lambda>RangeT RangeInputT s2.
                       Some (Return (),
                         s2\<lparr>gqlTypeByTypeId := (gqlTypeByTypeId s2)(i \<mapsto> RangeT),
                            gqlInputTypeByTypeId := (gqlInputTypeByTypeId s2)(i := RangeInputT),
                            pg2GqlMapper := (pg2GqlMapper s2)(i \<mapsto> RangeMapper subtype t)\<rparr>))
                 in case rangeType E (nameText gqlRangeSubType) of
                      Inl e \<Rightarrow> Some (Throw e, s1)
                    | Inr rangeName \<Rightarrow>
                        (case getTypeByName E (allTypes s1) rangeName of
                           Some RangeT \<Rightarrow>
                             (case inputType E (nameText RangeT) of
                                Inl e \<Rightarrow> Some (Throw e, s1)
                              | Inr inputName \<Rightarrow>
                                  finish RangeT (getTypeByName E (allTypes s1) inputName) s1)
                         | None \<Rightarrow>
                             (case rangeBoundType E (nameText gqlRangeSubType) of
                                Inl e \<Rightarrow> Some (Throw e, s1)
                              | Inr boundName \<Rightarrow>
                             (case inputType E boundName of
                                Inl e \<Rightarrow> Some (Throw e, s1)
                              | Inr boundInputName \<Rightarrow>
                             (case inputType E rangeName of
                                Inl e \<Rightarrow> Some (Throw e, s1)
                              | Inr rangeInputName \<Rightarrow>
                                 (let r = nextRef s1;
                                      description = Some (''A range of '' @ [CHR 0x60]
                                        @ nameText gqlRangeSubType @ [CHR 0x60] @ ''.'');
                                      RangeBoundT = GraphQLObjectType (r + 2) boundName
                                        (Some rangeBoundDescription)
                                        [(''value'', GraphQLNonNull r gqlRangeSubType),
                                         (''inclusive'', GraphQLNonNull (r + 1) GraphQLBoolean)];
                                      RangeBoundInputT = GraphQLInputObjectType (r + 5) boundInputName
                                        (Some rangeBoundDescription)
                                        [(''value'', GraphQLNonNull (r + 3) gqlRangeSubType),
                                         (''inclusive'', GraphQLNonNull (r + 4) GraphQLBoolean)];
                                      RangeT = GraphQLObjectType (r + 6) rangeName description
                                        [(''start'', RangeBoundT), (''end'', RangeBoundT)];
                                      RangeInputT = GraphQLInputObjectType (r + 7) rangeInputName description
                                        [(''start'', RangeBoundInputT), (''end'', RangeBoundInputT)];
                                      s2 = s1\<lparr>nextRef := r + 8\<rparr>
                                  in case addType E (allTypes s2) RangeT of
                                       Inl e \<Rightarrow> Some (Throw e, s2)
                                     | Inr types1 \<Rightarrow>
                                         (case addType E types1 RangeInputT of
                                            Inl e \<Rightarrow> Some (Throw e, s2\<lparr>allTypes := types1\<rparr>)
                                          | Inr types2 \<Rightarrow>
                                              finish RangeT (Some RangeInputT)
                                                (s2\<lparr>allTypes := types2\<rparr>)))))))))
      else Some (Return (), s))"

text \<open>Domains (lines 649-671). \<^verbatim>\<open>inflection.inputType\<close> receives the alias itself.\<close>

definition domainPhase ::
  "(pgtype option \<Rightarrow> ('r, 'n) state \<Rightarrow> (gqltype outcome \<times> ('r, 'n) state) option) \<Rightarrow>
     'r env \<Rightarrow> pgtype \<Rightarrow> nat \<Rightarrow> ('r, 'n) state \<Rightarrow> (unit outcome \<times> ('r, 'n) state) option" where
  "domainPhase rec E t i s =
     (if gqlTypeByTypeId s i = None \<and> t_type t = ''d'' \<and> t_domainBaseTypeId t \<noteq> None then
        (case rec (t_domainBaseType t) s of
           None \<Rightarrow> None
         | Some (Throw e, s1) \<Rightarrow> Some (Throw e, s1)
         | Some (Return baseType, s1) \<Rightarrow>
             (let baseInputType =
                    (case t_domainBaseTypeId t of None \<Rightarrow> None | Some j \<Rightarrow> gqlInputTypeByTypeId s1 j)
              in case domainType E t of
                   Inl e \<Rightarrow> Some (Throw e, s1)
                 | Inr name \<Rightarrow>
                     (let alias = Alias (nextRef s1) baseType name (t_description t);
                          s2 = s1\<lparr>gqlTypeByTypeId := (gqlTypeByTypeId s1)(i \<mapsto> alias),
                                  nextRef := nextRef s1 + 1\<rparr>
                      in case baseInputType of
                           None \<Rightarrow> Some (Return (), s2)
                         | Some inp \<Rightarrow>
                             if ref inp \<noteq> ref baseType then
                               (case inputType E (toString alias) of
                                  Inl e \<Rightarrow> Some (Throw e, s2)
                                | Inr inputName \<Rightarrow>
                                    Some (Return (),
                                      s2\<lparr>gqlInputTypeByTypeId := (gqlInputTypeByTypeId s2)
                                           (i \<mapsto> Alias (nextRef s2) inp inputName (t_description t)),
                                         nextRef := nextRef s2 + 1\<rparr>))
                             else Some (Return (), s2))))
      else Some (Return (), s))"

text \<open>The fallback to categories (lines 277-291 and 673-679).\<close>

definition categoryPhase ::
  "(pgtype option \<Rightarrow> ('r, 'n) state \<Rightarrow> (gqltype outcome \<times> ('r, 'n) state) option) \<Rightarrow>
     'r env \<Rightarrow> pgtype \<Rightarrow> nat \<Rightarrow> ('r, 'n) state \<Rightarrow> (unit outcome \<times> ('r, 'n) state) option" where
  "categoryPhase rec E t i s =
     (if gqlTypeByTypeId s i = None then
        (if t_category t = ''B'' then
           Some (Return (), s\<lparr>gqlTypeByTypeId := (gqlTypeByTypeId s)(i \<mapsto> GraphQLBoolean)\<rparr>)
         else if t_category t = ''N'' then
           Some (Return (),
             s\<lparr>pgTweaksByTypeId := (pgTweaksByTypeId s)(i \<mapsto> TweakToText),
               gqlTypeByTypeId := (gqlTypeByTypeId s)(i \<mapsto> BigFloat)\<rparr>)
         else if t_category t = ''A'' then
           (case rec (case t_arrayItemTypeId t of None \<Rightarrow> None | Some j \<Rightarrow> pgTypeById E j) s of
              None \<Rightarrow> None
            | Some (Throw e, s1) \<Rightarrow> Some (Throw e, s1)
            | Some (Return item, s1) \<Rightarrow>
                Some (Return (),
                  s1\<lparr>gqlTypeByTypeId := (gqlTypeByTypeId s1)(i \<mapsto> GraphQLList (nextRef s1) item),
                     nextRef := nextRef s1 + 1\<rparr>))
         else Some (Return (), s))
      else Some (Return (), s))"

text \<open>The string fallback (lines 681-685), then the type that is now stored.\<close>

definition stringFallback :: "nat \<Rightarrow> ('r, 'n) state \<Rightarrow> gqltype \<times> ('r, 'n) state" where
  "stringFallback i s =
     (case gqlTypeByTypeId s i of
        Some g \<Rightarrow> (g, s)
      | None \<Rightarrow> (GraphQLString, s\<lparr>gqlTypeByTypeId := (gqlTypeByTypeId s)(i \<mapsto> GraphQLString)\<rparr>))"

text \<open>The input type falls back to the output type (lines 686-691).\<close>

definition inputFallback :: "'r env \<Rightarrow> nat \<Rightarrow> gqltype \<Rightarrow> ('r, 'n) state \<Rightarrow> ('r, 'n) state" where
  "inputFallback E i g s =
     (if gqlInputTypeByTypeId s i = None \<and> isInputType E g
      then s\<lparr>gqlInputTypeByTypeId := (gqlInputTypeByTypeId s)(i \<mapsto> g)\<rparr> else s)"

text \<open>\<^verbatim>\<open>reallyEnforceGqlTypeByPgType\<close> (lines 497-694).\<close>

definition reallyEnforceGqlTypeByPgType ::
  "(pgtype option \<Rightarrow> ('r, 'n) state \<Rightarrow> (gqltype outcome \<times> ('r, 'n) state) option) \<Rightarrow>
     'r env \<Rightarrow> pgtype \<Rightarrow> ('r, 'n) state \<Rightarrow> (gqltype outcome \<times> ('r, 'n) state) option" where
  "reallyEnforceGqlTypeByPgType rec E t s =
     (case t_id t of
        None \<Rightarrow>
          Some (Throw (Error (''Invalid argument to enforceGqlTypeByPgType - expected a full type, received ''
                  @ [CHR 0x27] @ ''[object Object]'' @ [CHR 0x27]) None), s)
      | Some i \<Rightarrow>
          (case enumPhase E t i (explicitOverrides E i s) of
             (Throw e, s2) \<Rightarrow> Some (Throw e, s2)
           | (Return _, s2) \<Rightarrow>
          (case rangePhase rec E t i s2 of
             None \<Rightarrow> None
           | Some (Throw e, s3) \<Rightarrow> Some (Throw e, s3)
           | Some (Return _, s3) \<Rightarrow>
          (case domainPhase rec E t i s3 of
             None \<Rightarrow> None
           | Some (Throw e, s4) \<Rightarrow> Some (Throw e, s4)
           | Some (Return _, s4) \<Rightarrow>
          (case categoryPhase rec E t i s4 of
             None \<Rightarrow> None
           | Some (Throw e, s5) \<Rightarrow> Some (Throw e, s5)
           | Some (Return _, s5) \<Rightarrow>
              (case stringFallback i s5 of
                 (g, s6) \<Rightarrow>
                   (let s7 = inputFallback E i g s6
                    in case addType E (allTypes s7) (getNamedType E g) of
                         Inl e \<Rightarrow> Some (Throw e, s7)
                       | Inr types \<Rightarrow> Some (Return g, s7\<lparr>allTypes := types\<rparr>))))))))"

text \<open>\<^verbatim>\<open>indent\<close> (lines 25-27) and the error that the \<^verbatim>\<open>catch\<close> of lines 484-492 builds.\<close>

definition indent :: "string \<Rightarrow> string" where
  "indent str = ''  '' @ replace_all (CHR 0x0A) ([CHR 0x0A] @ ''  '') str"

definition processingError :: "pgtype \<Rightarrow> error \<Rightarrow> error" where
  "processingError t e =
     Error (''Error occurred when processing database type '' @ [CHR 0x27] @ t_namespaceName t
            @ ''.'' @ t_name t @ [CHR 0x27] @ '' (type='' @ t_type t @ ''):'' @ [CHR 0x0A]
            @ indent (message e))
       (Some e)"

definition tooDeep :: error where
  "tooDeep = Error ''Type enforcement went too deep - infinite loop?'' None"

text \<open>
  \<^verbatim>\<open>enforceGqlTypeByPgType\<close> (lines 477-496). The counter \<open>depth\<close> bounds the
  nesting at 50; the first argument is the budget of nested calls that makes the
  definition a recursion in HOL, and \<open>None\<close> says that it was used up. The test on
  the counter stands before the \<^verbatim>\<open>try\<close>, so its \<^verbatim>\<open>throw\<close> leaves without the
  \<^verbatim>\<open>finally\<close>. On \<^verbatim>\<open>undefined\<close> the body throws at \<^verbatim>\<open>type.id\<close> and the \<^verbatim>\<open>catch\<close> throws
  again at \<^verbatim>\<open>type.namespaceName\<close>.
\<close>

fun enforceGqlTypeByPgType ::
  "nat \<Rightarrow> 'r env \<Rightarrow> pgtype option \<Rightarrow> ('r, 'n) state \<Rightarrow> (gqltype outcome \<times> ('r, 'n) state) option" where
  "enforceGqlTypeByPgType 0 E ty s = None"
| "enforceGqlTypeByPgType (Suc k) E ty s =
     (let s1 = s\<lparr>depth := depth s + 1\<rparr>
      in if 50 < depth s1 then Some (Throw tooDeep, s1)
         else (case ty of
                 None \<Rightarrow>
                   Some (Throw (TypeError ''Cannot read property namespaceName of undefined''),
                         s1\<lparr>depth := depth s1 - 1\<rparr>)
               | Some t \<Rightarrow>
                   (case reallyEnforceGqlTypeByPgType (\<lambda>ty' s'. enforceGqlTypeByPgType k E ty' s') E t s1 of
                      None \<Rightarrow> None
                    | Some (Return g, s2) \<Rightarrow> Some (Return g, s2\<lparr>depth := depth s2 - 1\<rparr>)
                    | Some (Throw e, s2) \<Rightarrow>
                        Some (Throw (processingError t e), s2\<lparr>depth := depth s2 - 1\<rparr>))))"

text \<open>The decimal numeral of an identifier, as it appears in messages.\<close>

fun string_of_nat :: "nat \<Rightarrow> string" where
  "string_of_nat n =
     (if n < 10 then [char_of (48 + n)]
      else string_of_nat (n div 10) @ [char_of (48 + n mod 10)])"

definition findType :: "'r env \<Rightarrow> nat \<Rightarrow> pgtype option" where
  "findType E typeId = find (\<lambda>t. t_id t = Some typeId) (typeList E)"

text \<open>
  The part of \<^verbatim>\<open>getGqlTypeByTypeId\<close> that runs a registered generator (lines 708-727):
  each call of \<^verbatim>\<open>set\<close> stores its argument, then the result is checked against the
  stored type and stored.
\<close>

definition runGenerator ::
  "nat \<Rightarrow> generator \<Rightarrow> (nat \<Rightarrow> gqltype option) \<Rightarrow> unit outcome \<times> (nat \<Rightarrow> gqltype option)" where
  "runGenerator typeId gen table =
     (case gen of
        Generator sets end \<Rightarrow>
          (let table1 = foldl (\<lambda>m g. m(typeId \<mapsto> g)) table sets
           in case end of
                Inl e \<Rightarrow> (Throw e, table1)
              | Inr None \<Rightarrow> (Return (), table1)
              | Inr (Some result) \<Rightarrow>
                  (case table1 typeId of
                     None \<Rightarrow> (Return (), table1(typeId \<mapsto> result))
                   | Some g \<Rightarrow>
                       if ref g \<noteq> ref result then
                         (Throw (Error (''Callback and return types differ when defining type for ''
                                  @ [CHR 0x27] @ string_of_nat typeId @ [CHR 0x27]) None), table1)
                       else (Return (), table1(typeId \<mapsto> result)))))"

definition notPresent :: "nat \<Rightarrow> error" where
  "notPresent typeId =
     Error (''Type '' @ [CHR 0x27] @ string_of_nat typeId @ [CHR 0x27]
            @ '' not present in introspection results'') None"

text \<open>
  \<^verbatim>\<open>getGqlTypeByTypeId\<close> (lines 696-730). The first test reads the table of input
  generators, as the source does.
\<close>

definition getGqlTypeByTypeId ::
  "nat \<Rightarrow> 'r env \<Rightarrow> nat \<Rightarrow> ('r, 'n) state \<Rightarrow> (gqltype option outcome \<times> ('r, 'n) state) option" where
  "getGqlTypeByTypeId k E typeId s =
     (if gqlInputTypeByTypeIdGenerator s typeId = None then
        (case enforceGqlTypeByPgType k E (findType E typeId) s of
           None \<Rightarrow> None
         | Some (Throw e, s1) \<Rightarrow> Some (Throw e, s1)
         | Some (Return g, s1) \<Rightarrow> Some (Return (Some g), s1))
      else if gqlTypeByTypeId s typeId = None then
        (case findType E typeId of
           None \<Rightarrow> Some (Throw (notPresent typeId), s)
         | Some t \<Rightarrow>
             (case gqlTypeByTypeIdGenerator s typeId of
                None \<Rightarrow> Some (Return None, s)
              | Some gen \<Rightarrow>
                  (case runGenerator typeId gen (gqlTypeByTypeId s) of
                     (Throw e, table) \<Rightarrow> Some (Throw e, s\<lparr>gqlTypeByTypeId := table\<rparr>)
                   | (Return _, table) \<Rightarrow>
                       Some (Return (table typeId), s\<lparr>gqlTypeByTypeId := table\<rparr>))))
      else Some (Return (gqlTypeByTypeId s typeId), s))"

text \<open>\<^verbatim>\<open>getGqlInputTypeByTypeId\<close> (lines 731-767).\<close>

definition getGqlInputTypeByTypeId ::
  "nat \<Rightarrow> 'r env \<Rightarrow> nat \<Rightarrow> ('r, 'n) state \<Rightarrow> (gqltype option outcome \<times> ('r, 'n) state) option" where
  "getGqlInputTypeByTypeId k E typeId s =
     (if gqlInputTypeByTypeIdGenerator s typeId = None then
        (case enforceGqlTypeByPgType k E (findType E typeId) s of
           None \<Rightarrow> None
         | Some (Throw e, s1) \<Rightarrow> Some (Throw e, s1)
         | Some (Return g, s1) \<Rightarrow> Some (Return (gqlInputTypeByTypeId s1 typeId), s1))
      else if gqlInputTypeByTypeId s typeId = None then
        (case getGqlTypeByTypeId k E typeId s of
           None \<Rightarrow> None
         | Some (Throw e, s1) \<Rightarrow> Some (Throw e, s1)
         | Some (Return _, s1) \<Rightarrow>
             (case findType E typeId of
                None \<Rightarrow> Some (Throw (notPresent typeId), s1)
              | Some t \<Rightarrow>
                  (case gqlInputTypeByTypeIdGenerator s1 typeId of
                     None \<Rightarrow> Some (Return (gqlInputTypeByTypeId s1 typeId), s1)
                   | Some gen \<Rightarrow>
                       (case runGenerator typeId gen (gqlInputTypeByTypeId s1) of
                          (Throw e, table) \<Rightarrow> Some (Throw e, s1\<lparr>gqlInputTypeByTypeId := table\<rparr>)
                        | (Return _, table) \<Rightarrow>
                            Some (Return (table typeId), s1\<lparr>gqlInputTypeByTypeId := table\<rparr>)))))
      else Some (Return (gqlInputTypeByTypeId s typeId), s))"

text \<open>\<^verbatim>\<open>registerGqlTypeByTypeId\<close> and \<^verbatim>\<open>registerGqlInputTypeByTypeId\<close> (lines 769-794).\<close>

definition registerGqlTypeByTypeId ::
  "nat \<Rightarrow> generator \<Rightarrow> bool \<Rightarrow> ('r, 'n) state \<Rightarrow> unit outcome \<times> ('r, 'n) state" where
  "registerGqlTypeByTypeId typeId gen yieldToExisting s =
     (if gqlTypeByTypeIdGenerator s typeId \<noteq> None then
        (if yieldToExisting then (Return (), s)
         else (Throw (Error (''There'' @ [CHR 0x27] @ ''s already a type generator registered for ''
                 @ [CHR 0x27] @ string_of_nat typeId @ [CHR 0x27]) None), s))
      else (Return (), s\<lparr>gqlTypeByTypeIdGenerator := (gqlTypeByTypeIdGenerator s)(typeId \<mapsto> gen)\<rparr>))"

definition registerGqlInputTypeByTypeId ::
  "nat \<Rightarrow> generator \<Rightarrow> bool \<Rightarrow> ('r, 'n) state \<Rightarrow> unit outcome \<times> ('r, 'n) state" where
  "registerGqlInputTypeByTypeId typeId gen yieldToExisting s =
     (if gqlInputTypeByTypeIdGenerator s typeId \<noteq> None then
        (if yieldToExisting then (Return (), s)
         else (Throw (Error (''There'' @ [CHR 0x27] @ ''s already an input type generator registered for ''
                 @ [CHR 0x27] @ string_of_nat typeId @ [CHR 0x27]) None), s))
      else (Return (),
            s\<lparr>gqlInputTypeByTypeIdGenerator := (gqlInputTypeByTypeIdGenerator s)(typeId \<mapsto> gen)\<rparr>))"

text \<open>
  The types that the hook registers, in the order of its \<^verbatim>\<open>addType\<close> calls (lines 221,
  229, 244, 245 and 372-376), and the registry after these calls, when none of them
  throws.
\<close>

definition hookTypes :: "bool \<Rightarrow> bool \<Rightarrow> gqltype list" where
  "hookTypes extended legacy =
     [GQLInterval, GQLIntervalInput, BigFloat, BitString, JSONType extended legacy,
      SimpleUUID legacy, SimpleDate, SimpleDatetime, SimpleTime]"

fun addTypes :: "'r env \<Rightarrow> gqltype list \<Rightarrow> 'r \<Rightarrow> error + 'r" where
  "addTypes E [] types = Inr types"
| "addTypes E (g # gs) types =
     (case addType E types g of Inl e \<Rightarrow> Inl e | Inr types' \<Rightarrow> addTypes E gs types')"

text \<open>
  The ids that have a codec when the hook returns (lines 416-472): \<^verbatim>\<open>json\<close> and \<^verbatim>\<open>jsonb\<close>
  share one, \<^verbatim>\<open>interval\<close>, \<^verbatim>\<open>money\<close> and \<^verbatim>\<open>point\<close> have one each.
\<close>

definition hookMappers ::
  "'n mapper \<Rightarrow> 'n mapper \<Rightarrow> 'n mapper \<Rightarrow> 'n mapper \<Rightarrow> nat \<Rightarrow> 'n mapper option" where
  "hookMappers json interval money point =
     [114 \<mapsto> json, 3802 \<mapsto> json, 1186 \<mapsto> interval, 790 \<mapsto> money, 600 \<mapsto> point]"

text \<open>
  The state when the build hook returns: the two tables copied from the build,
  the codec table as lines 416-472 fill it, the tweaks of lines 258-275, and the
  registry of \<^verbatim>\<open>graphile-build\<close> after the \<^verbatim>\<open>addType\<close> calls of the hook.
\<close>

definition initialState ::
  "(nat \<Rightarrow> gqltype option) \<Rightarrow> (nat \<Rightarrow> gqltype option) \<Rightarrow> (nat \<Rightarrow> 'n mapper option) \<Rightarrow> 'r \<Rightarrow>
     ('r, 'n) state" where
  "initialState pgGqlTypeByTypeId pgGqlInputTypeByTypeId mappers types =
     \<lparr>depth = 0,
      gqlTypeByTypeId = pgGqlTypeByTypeId,
      gqlInputTypeByTypeId = pgGqlInputTypeByTypeId,
      gqlTypeByTypeIdGenerator = Map.empty,
      gqlInputTypeByTypeIdGenerator = Map.empty,
      pg2GqlMapper = mappers,
      pgTweaksByTypeId =
        map_of [(1186, TweakToText), (1082, TweakToJson), (1114, TweakToJson), (1184, TweakToJson),
                (1083, TweakToJson), (1266, TweakToJson), (20, TweakToText), (1700, TweakToText)],
      allTypes = types,
      nextRef = 22\<rparr>"

section \<open>Sample surroundings and descriptors\<close>

text \<open>
  A registry keyed by name that refuses a second, different type of a name it
  holds, the two predicates of \<^verbatim>\<open>graphql\<close> read off the class of a type, and a
  case conversion that joins the words between hyphens and underscores, each
  with its first letter in upper case. They serve to run the model on concrete
  descriptors.
\<close>

definition sampleAddType ::
  "(string \<Rightarrow> gqltype option) \<Rightarrow> gqltype \<Rightarrow> error + (string \<Rightarrow> gqltype option)" where
  "sampleAddType types g =
     (case getTypeProp g ''name'' of
        PString n \<Rightarrow>
          (case types n of
             None \<Rightarrow> Inr (types(n \<mapsto> g))
           | Some g' \<Rightarrow>
               if ref g' \<noteq> ref g then Inl (Error (''There is already a type with the name: '' @ n) None)
               else Inr (types(n \<mapsto> g)))
      | _ \<Rightarrow> Inl (Error ''addType must only be called with named types'' None))"

fun sampleIsInputType :: "gqltype \<Rightarrow> bool" where
  "sampleIsInputType (GraphQLScalarType _ _ _) = True"
| "sampleIsInputType (GraphQLEnumType _ _ _ _) = True"
| "sampleIsInputType (GraphQLInputObjectType _ _ _ _) = True"
| "sampleIsInputType (GraphQLObjectType _ _ _ _) = False"
| "sampleIsInputType (GraphQLList _ t) = sampleIsInputType t"
| "sampleIsInputType (GraphQLNonNull _ t) = sampleIsInputType t"
| "sampleIsInputType (Alias _ p _ _) = sampleIsInputType p"

fun sampleGetNamedType :: "gqltype \<Rightarrow> gqltype" where
  "sampleGetNamedType (GraphQLList _ t) = sampleGetNamedType t"
| "sampleGetNamedType (GraphQLNonNull _ t) = sampleGetNamedType t"
| "sampleGetNamedType (Alias r p n d) = (if isWrapping p then sampleGetNamedType p else Alias r p n d)"
| "sampleGetNamedType g = g"

definition upperFirst :: "string \<Rightarrow> string" where
  "upperFirst w =
     (case w of
        [] \<Rightarrow> []
      | c # cs \<Rightarrow>
          (case map_of (zip ''abcdefghijklmnopqrstuvwxyz'' ''ABCDEFGHIJKLMNOPQRSTUVWXYZ'') c of
             Some u \<Rightarrow> u
           | None \<Rightarrow> c) # cs)"

definition sampleUpperCamelCase :: "string \<Rightarrow> string" where
  "sampleUpperCamelCase n =
     concat (map upperFirst (concat (map (split_on (CHR ''_'')) (split_on (CHR ''-'') n))))"

definition sampleEnv :: "pgtype list \<Rightarrow> (string \<Rightarrow> gqltype option) env" where
  "sampleEnv ts =
     \<lparr>typeList = ts,
      typeById = (\<lambda>i. find (\<lambda>t. t_id t = Some i) ts),
      addType = sampleAddType,
      getTypeByName = (\<lambda>types n. types n),
      upperCamelCase = sampleUpperCamelCase,
      isInputType = sampleIsInputType,
      getNamedType = sampleGetNamedType,
      pgExtendedTypes = True,
      pgLegacyJsonUuid = False\<rparr>"

text \<open>
  The state when the hook returns in a build that passes no tables of its own, with
  both options at their defaults. The registry holds the nine types of the hook. The
  codec table has its five entries; no resolution of a type applies a codec, and
  the sample puts the pair that passes values through in each place.
\<close>

definition sampleTypes :: "string \<Rightarrow> gqltype option" where
  "sampleTypes =
     [''Interval'' \<mapsto> GQLInterval, ''IntervalInput'' \<mapsto> GQLIntervalInput,
      ''BigFloat'' \<mapsto> BigFloat, ''BitString'' \<mapsto> BitString, ''JSON'' \<mapsto> GraphQLJSON,
      ''UUID'' \<mapsto> SimpleUUID False, ''Date'' \<mapsto> SimpleDate, ''Datetime'' \<mapsto> SimpleDatetime,
      ''Time'' \<mapsto> SimpleTime]"

definition sampleCodec :: "int mapper" where
  "sampleCodec = Mapper (\<lambda>v. Inr v) (\<lambda>v. Inr (SqlValue v))"

definition sampleState :: "((string \<Rightarrow> gqltype option), int) state" where
  "sampleState =
     initialState Map.empty Map.empty
       (hookMappers sampleCodec sampleCodec sampleCodec sampleCodec) sampleTypes"

text \<open>The type \<^verbatim>\<open>text\<close>, and a tower of \<open>n\<close> domains over it, each over the one below.\<close>

definition pgText :: pgtype where
  "pgText = PgType (Some 25) ''text'' ''pg_catalog'' None None ''b'' ''S'' False
              None None None None None None"

fun domainTower :: "nat \<Rightarrow> pgtype" where
  "domainTower 0 = pgText"
| "domainTower (Suc n) =
     PgType (Some (100000 + n)) (replicate (Suc n) (CHR ''d'')) ''public'' None None ''d'' ''S'' False
       None None (t_id (domainTower n)) (Some (domainTower n)) None None"

text \<open>The array type of the comment at lines 168-184, and \<^verbatim>\<open>int4\<close> with a range over it.\<close>

definition pgFloat4 :: pgtype where
  "pgFloat4 = PgType (Some 700) ''float4'' ''pg_catalog'' None None ''b'' ''N'' False
                None None None None None None"

definition pgFloat4Array :: pgtype where
  "pgFloat4Array = PgType (Some 1021) ''_float4'' ''pg_catalog'' None None ''b'' ''A'' True
                     (Some 700) (Some pgFloat4) None None None None"

definition pgInt4 :: pgtype where
  "pgInt4 = PgType (Some 23) ''int4'' ''pg_catalog'' None None ''b'' ''N'' False
              None None None None None None"

definition pgInt4Range :: pgtype where
  "pgInt4Range = PgType (Some 3904) ''int4range'' ''pg_catalog'' None None ''r'' ''R'' False
                   None None None None (Some 23) None"

text \<open>
  An empty codec table, and a parser in the manner of \<^verbatim>\<open>pg\<close>: the texts of
  \<^verbatim>\<open>int2\<close> and \<^verbatim>\<open>int4\<close> become numbers, every other text stays a string.
\<close>

definition noMappers :: "nat \<Rightarrow> int mapper option" where
  "noMappers = Map.empty"

definition digitsValue :: "string \<Rightarrow> int" where
  "digitsValue ds =
     foldl (\<lambda>a c. 10 * a + int (length (takeWhile (\<lambda>d. d \<noteq> c) ''0123456789''))) 0 ds"

definition sampleTypeParser :: "nat option \<Rightarrow> string \<Rightarrow> error + int jsval" where
  "sampleTypeParser i s =
     (if i = Some 21 \<or> i = Some 23
      then Inr (Num (case s of c # ds \<Rightarrow> if c = CHR ''-'' then - digitsValue ds else digitsValue s
                             | [] \<Rightarrow> 0))
      else Inr (Str s))"

text \<open>A codec table that holds the entry of the range over \<^verbatim>\<open>int4\<close>.\<close>

definition sampleMappers :: "nat \<Rightarrow> int mapper option" where
  "sampleMappers = [3904 \<mapsto> RangeMapper (Some pgInt4) pgInt4Range]"

text \<open>
  Stand-ins for the base64 encoding of a \<^verbatim>\<open>Buffer\<close> and for \<^verbatim>\<open>JSON.stringify\<close>, on
  values whose strings are ASCII without control characters and whose numbers are
  integers. \<open>sampleStringify v\<close> is the text of \<open>v\<close> as an element of an array; there,
  \<^verbatim>\<open>undefined\<close> and a function print as \<^verbatim>\<open>null\<close>. A property whose value is
  \<^verbatim>\<open>undefined\<close> is not printed, and \<^verbatim>\<open>Object.prototype\<close> has no property to print.
\<close>

definition base64Alphabet :: string where
  "base64Alphabet = ''ABCDEFGHIJKLMNOPQRSTUVWXYZabcdefghijklmnopqrstuvwxyz0123456789+/''"

fun base64Bytes :: "nat list \<Rightarrow> string" where
  "base64Bytes [] = []"
| "base64Bytes [a] =
     [base64Alphabet ! (a div 4), base64Alphabet ! (a mod 4 * 16), CHR ''='', CHR ''='']"
| "base64Bytes [a, b] =
     [base64Alphabet ! (a div 4), base64Alphabet ! (a mod 4 * 16 + b div 16),
      base64Alphabet ! (b mod 16 * 4), CHR ''='']"
| "base64Bytes (a # b # c # rest) =
     [base64Alphabet ! (a div 4), base64Alphabet ! (a mod 4 * 16 + b div 16),
      base64Alphabet ! (b mod 16 * 4 + c div 64), base64Alphabet ! (c mod 64)] @ base64Bytes rest"

definition sampleBase64 :: "string \<Rightarrow> string" where
  "sampleBase64 str = base64Bytes (map of_char str)"

definition quoteJSON :: "string \<Rightarrow> string" where
  "quoteJSON s =
     [CHR 0x22] @ concat (map (\<lambda>c. if c = CHR 0x22 \<or> c = CHR 0x5C then [CHR 0x5C, c] else [c]) s)
       @ [CHR 0x22]"

fun joinWith :: "string \<Rightarrow> string list \<Rightarrow> string" where
  "joinWith sep [] = []"
| "joinWith sep [x] = x"
| "joinWith sep (x # y # ys) = x @ sep @ joinWith sep (y # ys)"

fun sampleStringify :: "int jsval \<Rightarrow> string" where
  "sampleStringify Undefined = ''null''"
| "sampleStringify Null = ''null''"
| "sampleStringify (Bool b) = (if b then ''true'' else ''false'')"
| "sampleStringify (Num n) =
     (if n < 0 then ''-'' @ string_of_nat (nat (- n)) else string_of_nat (nat n))"
| "sampleStringify (Str s) = quoteJSON s"
| "sampleStringify (Arr vs) = ''['' @ joinWith '','' (map sampleStringify vs) @ '']''"
| "sampleStringify (Obj kvs) =
     ''{'' @ joinWith '','' (map (\<lambda>kv. quoteJSON (fst kv) @ '':'' @ sampleStringify (snd kv))
                              (filter (\<lambda>kv. snd kv \<noteq> Undefined) kvs)) @ ''}''"

fun sampleElement :: "int element \<Rightarrow> string" where
  "sampleElement (Value v) = sampleStringify v"
| "sampleElement (InheritedFunction name) = ''null''"
| "sampleElement ObjectPrototype = ''{}''"

definition sampleStringifyArray :: "int element list \<Rightarrow> string" where
  "sampleStringifyArray es = ''['' @ joinWith '','' (map sampleElement es) @ '']''"

text \<open>An enum type with the two variants \<^verbatim>\<open>>\<close> and \<^verbatim>\<open>GREATER_THAN\<close>.\<close>

definition pgComparison :: pgtype where
  "pgComparison = PgType (Some 100100) ''comparison'' ''public'' None None ''e'' ''E'' False
                    None None None None None (Some [''>'', ''GREATER_THAN''])"

text \<open>The type \<^verbatim>\<open>point\<close> and a domain over it.\<close>

definition pgPoint :: pgtype where
  "pgPoint = PgType (Some 600) ''point'' ''pg_catalog'' None None ''b'' ''G'' False
               None None None None None None"

definition pgLocation :: pgtype where
  "pgLocation = PgType (Some 100200) ''location'' ''public'' (Some ''A place'') None ''d'' ''G'' False
                  None None (Some 600) (Some pgPoint) None None"

text \<open>What a run left behind: the entries of the two tables, and the counter.\<close>

definition returned :: "('a outcome \<times> ('r, 'n) state) option \<Rightarrow> 'a outcome option" where
  "returned r = map_option fst r"

definition outputTypeAfter ::
  "('a outcome \<times> ('r, 'n) state) option \<Rightarrow> nat \<Rightarrow> gqltype option" where
  "outputTypeAfter r i = (case r of None \<Rightarrow> None | Some (_, s) \<Rightarrow> gqlTypeByTypeId s i)"

definition inputTypeAfter ::
  "('a outcome \<times> ('r, 'n) state) option \<Rightarrow> nat \<Rightarrow> gqltype option" where
  "inputTypeAfter r i = (case r of None \<Rightarrow> None | Some (_, s) \<Rightarrow> gqlInputTypeByTypeId s i)"

definition depthAfter :: "('a outcome \<times> ('r, 'n) state) option \<Rightarrow> nat option" where
  "depthAfter r = map_option (\<lambda>x. depth (snd x)) r"

section \<open>Invariants of a resolution\<close>

text \<open>
  \<open>keeps s s'\<close>: every output type stored in \<open>s\<close> is stored, the same, in \<open>s'\<close>, and
  the tables of generators are the same. \<open>depthOk r s s'\<close>: a run from \<open>s\<close> to \<open>s'\<close>
  with outcome \<open>r\<close> restored the counter if it returned, and left it where it was or
  one higher if it threw. \<open>rootCause\<close> follows \<^verbatim>\<open>originalError\<close> to its end.
\<close>

definition keeps :: "('r, 'n) state \<Rightarrow> ('r, 'n) state \<Rightarrow> bool" where
  "keeps s s' \<longleftrightarrow>
     (\<forall>j x. gqlTypeByTypeId s j = Some x \<longrightarrow> gqlTypeByTypeId s' j = Some x) \<and>
     gqlTypeByTypeIdGenerator s' = gqlTypeByTypeIdGenerator s \<and>
     gqlInputTypeByTypeIdGenerator s' = gqlInputTypeByTypeIdGenerator s"

definition depthOk :: "'a outcome \<Rightarrow> ('r, 'n) state \<Rightarrow> ('r, 'n) state \<Rightarrow> bool" where
  "depthOk r s s' \<longleftrightarrow>
     (case r of
        Return _ \<Rightarrow> depth s' = depth s
      | Throw _ \<Rightarrow> depth s \<le> depth s' \<and> depth s' \<le> depth s + 1)"

fun rootCause :: "error \<Rightarrow> error" where
  "rootCause (Error m (Some e)) = rootCause e"
| "rootCause e = e"

text \<open>
  \<open>freshFor s n\<close>: in \<open>s\<close>, nothing is stored or registered yet for the domains of
  \<open>domainTower\<close> from the one over \<open>domainTower n\<close> upwards.
\<close>

definition freshFor :: "((string \<Rightarrow> gqltype option), 'n) state \<Rightarrow> nat \<Rightarrow> bool" where
  "freshFor s n \<longleftrightarrow>
     (\<forall>m\<ge>n. gqlTypeByTypeId s (100000 + m) = None \<and> gqlInputTypeByTypeId s (100000 + m) = None \<and>
             allTypes s (CHR ''D'' # replicate m (CHR ''d'')) = None)"

section \<open>Verification\<close>

lemma lastIndexOf_absent: "c \<notin> set s \<Longrightarrow> lastIndexOf c s = - 1"
  by (induction s) (auto simp: Let_def)

lemma lastIndexOf_ge: "- 1 \<le> lastIndexOf c s"
  by (induction s) (auto simp: Let_def)

lemma lastIndexOf_last:
  "c \<notin> set b \<Longrightarrow> lastIndexOf c (a @ c # b) = int (length a)"
  by (induction a) (auto simp: Let_def lastIndexOf_absent)

lemma lastIndexOf_bound: "lastIndexOf c s < int (length s)"
  by (induction s) (auto simp: Let_def)

lemma lastIndexOf_hit:
  "0 \<le> lastIndexOf c s \<Longrightarrow>
     s ! nat (lastIndexOf c s) = c \<and> c \<notin> set (drop (Suc (nat (lastIndexOf c s))) s)"
proof (induction s)
  case Nil
  then show ?case by simp
next
  case (Cons x xs)
  show ?case
  proof (cases "0 \<le> lastIndexOf c xs")
    case True
    with Cons.IH have "xs ! nat (lastIndexOf c xs) = c"
      and "c \<notin> set (drop (Suc (nat (lastIndexOf c xs))) xs)" by auto
    with True show ?thesis by (simp add: Let_def nat_add_distrib)
  next
    case False
    with Cons.prems have xc: "x = c" by (auto simp: Let_def split: if_splits)
    from False have "lastIndexOf c xs = - 1" using lastIndexOf_ge [of c xs] by linarith
    moreover have "c \<notin> set xs"
    proof
      assume "c \<in> set xs"
      then obtain a b where "xs = a @ c # b" "c \<notin> set b"
        by (meson split_list_last)
      then have "lastIndexOf c xs = int (length a)" by (simp add: lastIndexOf_last)
      with False show False by simp
    qed
    ultimately show ?thesis using xc False by (simp add: Let_def)
  qed
qed

lemma replace_first_absent: "c \<notin> set s \<Longrightarrow> replace_first c t s = s"
  by (induction s) auto

lemma replace_first_hit: "c \<notin> set a \<Longrightarrow> replace_first c t (a @ c # b) = a @ t @ b"
  by (induction a) auto

lemma replace_all_delete: "replace_all c [] s = filter (\<lambda>x. x \<noteq> c) s"
  by (induction s) (auto simp: replace_all_def)

subsection \<open>The decoder of money\<close>

lemma parseMoney_unfold:
  "parseMoney pf str =
     (if 0 \<le> lastIndexOf (CHR '','') (stripNonNumeric str) \<and>
         lastIndexOf (CHR '','') (stripNonNumeric str) = int (length (stripNonNumeric str)) - 3
      then pf (replace_first (CHR '','') ''.'' (filter (\<lambda>x. x \<noteq> CHR ''.'') (stripNonNumeric str)))
      else pf (filter (\<lambda>x. x \<noteq> CHR '','') (stripNonNumeric str)))"
  unfolding parseMoney_def Let_def replace_all_delete ..

lemma two_elems: "length xs = 2 \<Longrightarrow> \<exists>c1 c2. xs = [c1, c2]"
  by (cases xs; cases "tl xs") auto

lemma parseMoney_decimal_comma:
  assumes n: "stripNonNumeric str = a @ [CHR '','', c1, c2]"
    and a: "CHR '','' \<notin> set a" and c: "c1 \<noteq> CHR '',''" "c2 \<noteq> CHR '',''"
  shows "parseMoney pf str =
           pf (filter (\<lambda>c. c \<noteq> CHR ''.'') a @ ''.'' @ filter (\<lambda>c. c \<noteq> CHR ''.'') [c1, c2])"
proof -
  have idx: "lastIndexOf (CHR '','') (a @ CHR '','' # [c1, c2]) = int (length a)"
    using c by (intro lastIndexOf_last) auto
  have f: "filter (\<lambda>x. x \<noteq> CHR ''.'') (a @ [CHR '','', c1, c2])
         = filter (\<lambda>x. x \<noteq> CHR ''.'') a @ CHR '','' # filter (\<lambda>x. x \<noteq> CHR ''.'') [c1, c2]"
    by simp
  have r: "replace_first (CHR '','') ''.''
             (filter (\<lambda>x. x \<noteq> CHR ''.'') a @ CHR '','' # filter (\<lambda>x. x \<noteq> CHR ''.'') [c1, c2])
         = filter (\<lambda>x. x \<noteq> CHR ''.'') a @ ''.'' @ filter (\<lambda>x. x \<noteq> CHR ''.'') [c1, c2]"
    using a by (intro replace_first_hit) auto
  have "parseMoney pf str =
          pf (replace_first (CHR '','') ''.'' (filter (\<lambda>x. x \<noteq> CHR ''.'') (a @ [CHR '','', c1, c2])))"
    unfolding parseMoney_unfold n using idx by simp
  then show ?thesis unfolding f r .
qed

lemma parseMoney_grouping_commas:
  assumes "\<not> (\<exists>a c1 c2. stripNonNumeric str = a @ [CHR '','', c1, c2]
                 \<and> c1 \<noteq> CHR '','' \<and> c2 \<noteq> CHR '','')"
  shows "parseMoney pf str = pf (filter (\<lambda>c. c \<noteq> CHR '','') (stripNonNumeric str))"
proof -
  define n where "n = stripNonNumeric str"
  define k where "k = lastIndexOf (CHR '','') n"
  have "\<not> (0 \<le> k \<and> k = int (length n) - 3)"
  proof
    assume h: "0 \<le> k \<and> k = int (length n) - 3"
    then have len: "length n = nat k + 3" by linarith
    from h lastIndexOf_hit [of "CHR '',''" n]
    have at: "n ! nat k = CHR '',''" and rest: "CHR '','' \<notin> set (drop (Suc (nat k)) n)"
      unfolding k_def by auto
    have "length (drop (Suc (nat k)) n) = 2" using len by simp
    then obtain c1 c2 where d: "drop (Suc (nat k)) n = [c1, c2]"
      using two_elems by blast
    have "n = take (nat k) n @ n ! nat k # drop (Suc (nat k)) n"
      using len by (intro id_take_nth_drop) simp
    with at d have "n = take (nat k) n @ [CHR '','', c1, c2]" by simp
    moreover from rest d have "c1 \<noteq> CHR '','' \<and> c2 \<noteq> CHR '',''" by auto
    ultimately show False using assms unfolding n_def by blast
  qed
  then have neg: "\<not> (0 \<le> lastIndexOf (CHR '','') (stripNonNumeric str) \<and>
       lastIndexOf (CHR '','') (stripNonNumeric str) = int (length (stripNonNumeric str)) - 3)"
    unfolding n_def k_def .
  show ?thesis unfolding parseMoney_unfold using neg by (simp only: if_False)
qed

text \<open>
  C5, as amended. The money decoder reads \<^verbatim>\<open>123,456.78\<close> and \<^verbatim>\<open>123.456,78\<close> as the
  number that \<^verbatim>\<open>parseFloat\<close> reads from \<^verbatim>\<open>123456.78\<close>. In general it works on the
  text stripped of everything but digits, dots and commas. When that text has exactly
  one comma and the comma is followed by exactly two more characters, the comma is
  the decimal separator: the dots are dropped and the comma becomes the decimal
  point. When the last comma of that text is not followed by exactly two more
  characters, or there is no comma, the commas are grouping separators: they are
  dropped and the dots stay. (A text with several commas, the last of them followed
  by exactly two more characters, is not covered.)
\<close>

theorem parseMoney_disambiguates:
  "parseMoney pf ''123,456.78'' = pf ''123456.78'' \<and>
   parseMoney pf ''123.456,78'' = pf ''123456.78'' \<and>
   (\<forall>a c1 c2. stripNonNumeric str = a @ [CHR '','', c1, c2] \<and> CHR '','' \<notin> set a
        \<and> c1 \<noteq> CHR '','' \<and> c2 \<noteq> CHR '','' \<longrightarrow>
      parseMoney pf str =
        pf (filter (\<lambda>c. c \<noteq> CHR ''.'') a @ ''.'' @ filter (\<lambda>c. c \<noteq> CHR ''.'') [c1, c2])) \<and>
   (\<not> (\<exists>a c1 c2. stripNonNumeric str = a @ [CHR '','', c1, c2]
          \<and> c1 \<noteq> CHR '','' \<and> c2 \<noteq> CHR '','') \<longrightarrow>
      parseMoney pf str = pf (filter (\<lambda>c. c \<noteq> CHR '','') (stripNonNumeric str)))"
proof (intro conjI allI impI)
  show "parseMoney pf ''123,456.78'' = pf ''123456.78''"
    by (simp add: parseMoney_def stripNonNumeric_def is_digit_def replace_all_def)
  show "parseMoney pf ''123.456,78'' = pf ''123456.78''"
    by (simp add: parseMoney_def stripNonNumeric_def is_digit_def replace_all_def)
next
  fix a c1 c2
  assume "stripNonNumeric str = a @ [CHR '','', c1, c2] \<and> CHR '','' \<notin> set a
            \<and> c1 \<noteq> CHR '','' \<and> c2 \<noteq> CHR '',''"
  then show "parseMoney pf str =
      pf (filter (\<lambda>c. c \<noteq> CHR ''.'') a @ ''.'' @ filter (\<lambda>c. c \<noteq> CHR ''.'') [c1, c2])"
    by (intro parseMoney_decimal_comma) auto
next
  assume "\<not> (\<exists>a c1 c2. stripNonNumeric str = a @ [CHR '','', c1, c2]
                \<and> c1 \<noteq> CHR '','' \<and> c2 \<noteq> CHR '','')"
  then show "parseMoney pf str = pf (filter (\<lambda>c. c \<noteq> CHR '','') (stripNonNumeric str))"
    by (rule parseMoney_grouping_commas)
qed

text \<open>
  C5 as stated fails on \<^verbatim>\<open>1,234,56\<close>, whose last comma stands two digits from the
  end: the text that reaches \<^verbatim>\<open>parseFloat\<close> is \<^verbatim>\<open>1.234,56\<close>, in which the last comma
  is still a comma.
\<close>

theorem parseMoney_two_commas_counterexample:
  "parseMoney id ''1,234,56'' = ''1.234,56''"
  by (simp add: parseMoney_def stripNonNumeric_def is_digit_def replace_all_def)

theorem parseMoney_disambiguates_witness:
  "parseMoney (\<lambda>t. t) ''$1.234,56'' = ''1234.56'' \<and> parseMoney (\<lambda>t. t) ''$1,234.5'' = ''1234.5''"
proof
  have s: "stripNonNumeric ''$1.234,56'' = ''1.234'' @ [CHR '','', CHR ''5'', CHR ''6'']"
    by (simp add: stripNonNumeric_def is_digit_def)
  have "parseMoney (\<lambda>t. t) ''$1.234,56'' =
          filter (\<lambda>c. c \<noteq> CHR ''.'') ''1.234'' @ ''.'' @ filter (\<lambda>c. c \<noteq> CHR ''.'') ''56''"
    using parseMoney_disambiguates [of "\<lambda>t. t" "''$1.234,56''"] s by auto
  then show "parseMoney (\<lambda>t. t) ''$1.234,56'' = ''1234.56''" by simp
next
  have s: "stripNonNumeric ''$1,234.5'' = ''1,234.5''"
    by (simp add: stripNonNumeric_def is_digit_def)
  have "\<not> (\<exists>a c1 c2. ''1,234.5'' = a @ [CHR '','', c1, c2] \<and> c1 \<noteq> CHR '','' \<and> c2 \<noteq> CHR '','')"
  proof
    assume "\<exists>a c1 c2. ''1,234.5'' = a @ [CHR '','', c1, c2] \<and> c1 \<noteq> CHR '','' \<and> c2 \<noteq> CHR '',''"
    then obtain a c1 c2 where "''1,234.5'' = a @ [CHR '','', c1, c2]" by blast
    then have "rev ''1,234.5'' = rev (a @ [CHR '','', c1, c2])" by (rule arg_cong)
    then show False by simp
  qed
  then have "parseMoney (\<lambda>t. t) ''$1,234.5'' = filter (\<lambda>c. c \<noteq> CHR '','') (stripNonNumeric ''$1,234.5'')"
    using parseMoney_disambiguates [of "\<lambda>t. t" "''$1,234.5''"] unfolding s by blast
  then show "parseMoney (\<lambda>t. t) ''$1,234.5'' = ''1234.5''" unfolding s by simp
qed

subsection \<open>The decoder of points\<close>

lemma split_on_nonempty: "split_on c s \<noteq> []"
  by (induction s) (auto split: list.splits)

lemma split_on_absent: "c \<notin> set a \<Longrightarrow> split_on c a = [a]"
  by (induction a) auto

lemma split_on_hit: "c \<notin> set a \<Longrightarrow> split_on c (a @ c # b) = a # split_on c b"
  by (induction a) auto

lemma split_on_head: "\<exists>ps. split_on c b = takeWhile (\<lambda>x. x \<noteq> c) b # ps"
  by (induction b) (auto split: list.splits)

lemma parenthesized_iff:
  "(f \<noteq> [] \<and> hd f = CHR ''('' \<and> last f = CHR '')'') \<longleftrightarrow> (\<exists>m. f = CHR ''('' # m @ '')'')"
proof
  assume h: "f \<noteq> [] \<and> hd f = CHR ''('' \<and> last f = CHR '')''"
  then obtain r where f: "f = CHR ''('' # r" by (cases f) auto
  with h have "r \<noteq> []" by auto
  then have "r = butlast r @ [last r]" by simp
  moreover from f h \<open>r \<noteq> []\<close> have "last r = CHR '')''" by simp
  ultimately have "f = CHR ''('' # butlast r @ '')''" using f by simp
  then show "\<exists>m. f = CHR ''('' # m @ '')''" ..
next
  assume "\<exists>m. f = CHR ''('' # m @ '')''"
  then show "f \<noteq> [] \<and> hd f = CHR ''('' \<and> last f = CHR '')''" by auto
qed

lemma pointMap_parenthesized:
  "pointMap pf (CHR ''('' # m @ '')'') =
     (let parts = map pf (split_on (CHR '','') m)
      in Obj [(''x'', (case parts of [] \<Rightarrow> Undefined | x # _ \<Rightarrow> Num x)),
              (''y'', (case parts of _ # y # _ \<Rightarrow> Num y | _ \<Rightarrow> Undefined))])"
  by (simp add: pointMap_def)

text \<open>
  C10. The point decoder returns \<^verbatim>\<open>undefined\<close>, and raises nothing, on a text that
  does not both begin with an opening and end with a closing parenthesis. On a
  parenthesized text it splits the inside on the comma: \<^verbatim>\<open>x\<close> is \<^verbatim>\<open>parseFloat\<close> of the
  first part, \<^verbatim>\<open>y\<close> of the second (\<^verbatim>\<open>undefined\<close> when there is no comma).
\<close>

theorem pointMap_unparenthesized_is_undefined:
  "(\<not> (\<exists>m. f = CHR ''('' # m @ '')'') \<longrightarrow> pointMap pf f = Undefined) \<and>
   (\<forall>a b. CHR '','' \<notin> set a \<longrightarrow>
      pointMap pf (CHR ''('' # a @ CHR '','' # b @ '')'') =
        Obj [(''x'', Num (pf a)), (''y'', Num (pf (takeWhile (\<lambda>c. c \<noteq> CHR '','') b)))]) \<and>
   (\<forall>a. CHR '','' \<notin> set a \<longrightarrow>
      pointMap pf (CHR ''('' # a @ '')'') = Obj [(''x'', Num (pf a)), (''y'', Undefined)]) \<and>
   pointMap pf ''(1,3)'' = Obj [(''x'', Num (pf ''1'')), (''y'', Num (pf ''3''))]"
proof (intro conjI allI impI)
  assume "\<not> (\<exists>m. f = CHR ''('' # m @ '')'')"
  then have "\<not> (f \<noteq> [] \<and> hd f = CHR ''('' \<and> last f = CHR '')'')"
    unfolding parenthesized_iff .
  then show "pointMap pf f = Undefined" unfolding pointMap_def by (simp only: if_False)
next
  fix a b :: string
  assume a: "CHR '','' \<notin> set a"
  obtain ps where ps: "split_on (CHR '','') b = takeWhile (\<lambda>x. x \<noteq> CHR '','') b # ps"
    using split_on_head by blast
  have "pointMap pf (CHR ''('' # (a @ CHR '','' # b) @ '')'') =
        Obj [(''x'', Num (pf a)), (''y'', Num (pf (takeWhile (\<lambda>c. c \<noteq> CHR '','') b)))]"
    unfolding pointMap_parenthesized using a ps by (simp add: split_on_hit)
  then show "pointMap pf (CHR ''('' # a @ CHR '','' # b @ '')'') =
        Obj [(''x'', Num (pf a)), (''y'', Num (pf (takeWhile (\<lambda>c. c \<noteq> CHR '','') b)))]"
    by simp
next
  fix a :: string
  assume a: "CHR '','' \<notin> set a"
  show "pointMap pf (CHR ''('' # a @ '')'') = Obj [(''x'', Num (pf a)), (''y'', Undefined)]"
    unfolding pointMap_parenthesized using a by (simp add: split_on_absent)
next
  show "pointMap pf ''(1,3)'' = Obj [(''x'', Num (pf ''1'')), (''y'', Num (pf ''3''))]"
    by (simp add: pointMap_def)
qed

theorem pointMap_unparenthesized_is_undefined_witness:
  "pointMap (\<lambda>t. t) ''1,3'' = Undefined \<and>
   pointMap (\<lambda>t. t) ''(1.5,-2)'' = Obj [(''x'', Num ''1.5''), (''y'', Num ''-2'')] \<and>
   pointMap (\<lambda>t. t) ''(7)'' = Obj [(''x'', Num ''7''), (''y'', Undefined)]"
proof (intro conjI)
  have "\<not> (\<exists>m. ''1,3'' = CHR ''('' # m @ '')'')" by simp
  then show "pointMap (\<lambda>t. t) ''1,3'' = Undefined"
    using pointMap_unparenthesized_is_undefined [of "''1,3''" "\<lambda>t. t"] by blast
next
  have "CHR '','' \<notin> set ''1.5''" by simp
  then have "pointMap (\<lambda>t. t) (CHR ''('' # ''1.5'' @ CHR '','' # ''-2'' @ '')'') =
        Obj [(''x'', Num ''1.5''), (''y'', Num (takeWhile (\<lambda>c. c \<noteq> CHR '','') ''-2''))]"
    using pointMap_unparenthesized_is_undefined [of "''1,3''" "\<lambda>t. t"] by blast
  then show "pointMap (\<lambda>t. t) ''(1.5,-2)'' = Obj [(''x'', Num ''1.5''), (''y'', Num ''-2'')]"
    by simp
next
  have "CHR '','' \<notin> set ''7''" by simp
  then have "pointMap (\<lambda>t. t) (CHR ''('' # ''7'' @ '')'') = Obj [(''x'', Num ''7''), (''y'', Undefined)]"
    using pointMap_unparenthesized_is_undefined [of "''1,3''" "\<lambda>t. t"] by blast
  then show "pointMap (\<lambda>t. t) ''(7)'' = Obj [(''x'', Num ''7''), (''y'', Undefined)]" by simp
qed

subsection \<open>The codec dispatch\<close>

text \<open>
  C9. For every descriptor, every codec table and every parser, decoding \<^verbatim>\<open>null\<close>
  or \<^verbatim>\<open>undefined\<close> returns the value itself, and encoding \<^verbatim>\<open>null\<close> or \<^verbatim>\<open>undefined\<close>
  returns \<^verbatim>\<open>sql.null\<close>: the result does not depend on the table, so no registered
  codec is applied.
\<close>

theorem null_bypasses_codecs:
  "pg2gql (Suc k) P M Null t = Some (Inr Null) \<and>
   pg2gql (Suc k) P M Undefined t = Some (Inr Undefined) \<and>
   gql2pg (Suc k) nt M Null t = Some (Inr SqlNull) \<and>
   gql2pg (Suc k) nt M Undefined t = Some (Inr SqlNull)"
  by simp

lemma traverse_all_ok:
  "length ws = length vs \<Longrightarrow> (\<forall>j<length vs. f (vs ! j) = Some (Inr (ws ! j))) \<Longrightarrow>
     traverse f vs = Some (Inr ws)"
proof (induction vs arbitrary: ws)
  case Nil
  then show ?case by simp
next
  case (Cons v vs)
  then obtain w ws' where ws: "ws = w # ws'" by (cases ws) auto
  from Cons.prems ws have hd: "f v = Some (Inr w)" by auto
  from Cons.prems ws have "\<forall>j<length vs. f (vs ! j) = Some (Inr (ws' ! j))" by auto
  with Cons.IH [of ws'] Cons.prems ws have "traverse f vs = Some (Inr ws')" by simp
  with hd ws show ?case by simp
qed

lemma traverse_first_error:
  "j < length vs \<Longrightarrow> (\<forall>i<j. \<exists>w. f (vs ! i) = Some (Inr w)) \<Longrightarrow> f (vs ! j) = Some (Inl e) \<Longrightarrow>
     traverse f vs = Some (Inl e)"
proof (induction vs arbitrary: j)
  case Nil
  then show ?case by simp
next
  case (Cons v vs)
  show ?case
  proof (cases j)
    case 0
    with Cons.prems show ?thesis by simp
  next
    case (Suc j')
    with Cons.prems obtain w where w: "f v = Some (Inr w)" by auto
    from Cons.prems Suc have "\<forall>i<j'. \<exists>w. f (vs ! i) = Some (Inr w)" by auto
    with Cons.IH [of j'] Cons.prems Suc have "traverse f vs = Some (Inl e)" by simp
    with w show ?thesis by simp
  qed
qed

lemma pg2gql_array_Arr:
  assumes "t_isPgArray t" "mapperFor M t = None" "t_domainBaseType t = None"
    and "t_arrayItemType t = Some it"
  shows "pg2gql (Suc k) P M (Arr vs) t =
          (case traverse (\<lambda>v. pg2gql k P M v it) vs of
             None \<Rightarrow> None
           | Some (Inl e) \<Rightarrow> Some (Inl e)
           | Some (Inr ws) \<Rightarrow> Some (Inr (Arr ws)))"
  using assms by simp

lemma pg2gql_array_other:
  assumes "t_isPgArray t" "mapperFor M t = None" "t_domainBaseType t = None"
    and "\<not> is_nullish val" "\<not> (\<exists>vs. val = Arr vs)"
  shows "pg2gql (Suc k) P M val t =
          Some (Inl (Error
            (''Expected array when converting PostgreSQL data into GraphQL; failing type: ''
               @ [CHR 0x27] @ t_namespaceName t @ ''.'' @ t_name t @ [CHR 0x27]) None))"
  using assms by (cases val) auto

text \<open>
  C6, as amended. For an array descriptor that has no codec registered for its
  own id and no domain base type: decoding a value that is neither null nor an
  array fails with the error whose message names the type as
  \<^verbatim>\<open>namespace.name\<close>; decoding an array applies the decoder of the item type to
  every element, in order, and the first element that fails decides the error.
\<close>

theorem array_decode:
  "t_isPgArray t \<and> mapperFor M t = None \<and> t_domainBaseType t = None \<longrightarrow>
     (\<not> is_nullish val \<and> \<not> (\<exists>vs. val = Arr vs) \<longrightarrow>
        pg2gql (Suc k) P M val t =
          Some (Inl (Error
            (''Expected array when converting PostgreSQL data into GraphQL; failing type: ''
               @ [CHR 0x27] @ t_namespaceName t @ ''.'' @ t_name t @ [CHR 0x27]) None))) \<and>
     (\<forall>it vs ws. t_arrayItemType t = Some it \<and> length ws = length vs \<and>
          (\<forall>j<length vs. pg2gql k P M (vs ! j) it = Some (Inr (ws ! j))) \<longrightarrow>
        pg2gql (Suc k) P M (Arr vs) t = Some (Inr (Arr ws))) \<and>
     (\<forall>it vs j e. t_arrayItemType t = Some it \<and> j < length vs \<and>
          (\<forall>i<j. \<exists>w. pg2gql k P M (vs ! i) it = Some (Inr w)) \<and>
          pg2gql k P M (vs ! j) it = Some (Inl e) \<longrightarrow>
        pg2gql (Suc k) P M (Arr vs) t = Some (Inl e))"
proof (intro impI conjI allI)
  assume t: "t_isPgArray t \<and> mapperFor M t = None \<and> t_domainBaseType t = None"
    and v: "\<not> is_nullish val \<and> \<not> (\<exists>vs. val = Arr vs)"
  then show "pg2gql (Suc k) P M val t =
          Some (Inl (Error
            (''Expected array when converting PostgreSQL data into GraphQL; failing type: ''
               @ [CHR 0x27] @ t_namespaceName t @ ''.'' @ t_name t @ [CHR 0x27]) None))"
    by (intro pg2gql_array_other) auto
next
  fix it vs ws
  assume t: "t_isPgArray t \<and> mapperFor M t = None \<and> t_domainBaseType t = None"
    and h: "t_arrayItemType t = Some it \<and> length ws = length vs \<and>
          (\<forall>j<length vs. pg2gql k P M (vs ! j) it = Some (Inr (ws ! j)))"
  then have "traverse (\<lambda>v. pg2gql k P M v it) vs = Some (Inr ws)"
    by (intro traverse_all_ok) auto
  with pg2gql_array_Arr [of t M it k P vs] t h
  show "pg2gql (Suc k) P M (Arr vs) t = Some (Inr (Arr ws))" by simp
next
  fix it vs j e
  assume t: "t_isPgArray t \<and> mapperFor M t = None \<and> t_domainBaseType t = None"
    and h: "t_arrayItemType t = Some it \<and> j < length vs \<and>
          (\<forall>i<j. \<exists>w. pg2gql k P M (vs ! i) it = Some (Inr w)) \<and>
          pg2gql k P M (vs ! j) it = Some (Inl e)"
  then have "traverse (\<lambda>v. pg2gql k P M v it) vs = Some (Inl e)"
    by (intro traverse_first_error [of j]) auto
  with pg2gql_array_Arr [of t M it k P vs] t h
  show "pg2gql (Suc k) P M (Arr vs) t = Some (Inl e)" by simp
qed

text \<open>
  C6 as stated fails on \<^verbatim>\<open>null\<close>, which is not an array and is returned as it is.
\<close>

theorem array_decode_null_counterexample:
  "pg2gql (Suc 0) sampleTypeParser noMappers Null pgFloat4Array = Some (Inr Null)"
  by simp

theorem array_decode_witness:
  "pg2gql (Suc (Suc 0)) sampleTypeParser noMappers (Str ''1.5'') pgFloat4Array =
     Some (Inl (Error (''Expected array when converting PostgreSQL data into GraphQL; failing type: ''
                  @ [CHR 0x27] @ ''pg_catalog._float4'' @ [CHR 0x27]) None)) \<and>
   pg2gql (Suc (Suc 0)) sampleTypeParser noMappers (Arr [Num 1, Null, Num 3]) pgFloat4Array =
     Some (Inr (Arr [Num 1, Null, Num 3]))"
proof
  have t: "t_isPgArray pgFloat4Array \<and> mapperFor noMappers pgFloat4Array = None
             \<and> t_domainBaseType pgFloat4Array = None"
    by (simp add: pgFloat4Array_def mapperFor_def noMappers_def)
  have v: "\<not> is_nullish (Str ''1.5'' :: int jsval) \<and> \<not> (\<exists>vs. (Str ''1.5'' :: int jsval) = Arr vs)"
    by simp
  from array_decode [of pgFloat4Array noMappers "Str ''1.5''" "Suc 0" sampleTypeParser] t v
  show "pg2gql (Suc (Suc 0)) sampleTypeParser noMappers (Str ''1.5'') pgFloat4Array =
     Some (Inl (Error (''Expected array when converting PostgreSQL data into GraphQL; failing type: ''
                  @ [CHR 0x27] @ ''pg_catalog._float4'' @ [CHR 0x27]) None))"
    by (simp add: pgFloat4Array_def)
next
  have t: "t_isPgArray pgFloat4Array \<and> mapperFor noMappers pgFloat4Array = None
             \<and> t_domainBaseType pgFloat4Array = None"
    by (simp add: pgFloat4Array_def mapperFor_def noMappers_def)
  have i: "t_arrayItemType pgFloat4Array = Some pgFloat4" by (simp add: pgFloat4Array_def)
  have e: "\<forall>j<length [Num 1, Null, Num 3 :: int jsval].
             pg2gql (Suc 0) sampleTypeParser noMappers ([Num 1, Null, Num 3] ! j) pgFloat4
               = Some (Inr ([Num 1, Null, Num 3] ! j))"
    by (simp add: pgFloat4_def mapperFor_def noMappers_def All_less_Suc2 nth_Cons')
  from array_decode [of pgFloat4Array noMappers "Str ''1.5''" "Suc 0" sampleTypeParser] t i e
  show "pg2gql (Suc (Suc 0)) sampleTypeParser noMappers (Arr [Num 1, Null, Num 3]) pgFloat4Array =
     Some (Inr (Arr [Num 1, Null, Num 3]))"
    by blast
qed

subsection \<open>The decoder of ranges\<close>

lemma decodeBound_none: "decodeBound parse dec None = Some (Inr Null)"
  by (simp add: decodeBound_def)

lemma decodeBound_some:
  "parse text = Inr raw \<Longrightarrow> dec raw = Some (Inr v) \<Longrightarrow>
     decodeBound parse dec (Some (inclusive, text)) =
       Some (Inr (Obj [(''value'', v), (''inclusive'', Bool inclusive)]))"
  by (simp add: decodeBound_def)

lemma pg2gql_range:
  assumes m: "mapperFor M t = Some (RangeMapper (Some st) rt)"
    and sp: "split_on (CHR '','') str = [p0, p1]"
    and b0: "decodeBound (pgParse P st) (\<lambda>v. pg2gql k P M v st)
               (if 1 < length p0 then Some (hd p0 = CHR ''['', drop 1 p0) else None) = Some (Inr s)"
    and b1: "decodeBound (pgParse P st) (\<lambda>v. pg2gql k P M v st)
               (if 1 < length p1 then Some (last p1 = CHR '']'', butlast p1) else None) = Some (Inr e)"
  shows "pg2gql (Suc k) P M (Str str) t = Some (Inr (Obj [(''start'', s), (''end'', e)]))"
  using m sp b0 b1 by (simp add: rangeMap_def pgRangeParser_parse_def)

lemma range_decode_general:
  assumes "mapperFor M t = Some (RangeMapper (Some st) rt)" "split_on (CHR '','') str = [p0, p1]"
    and "1 < length p0 \<longrightarrow>
      (\<exists>raw. pgParse P st (drop 1 p0) = Inr raw \<and> pg2gql k P M raw st = Some (Inr v0))"
    and "1 < length p1 \<longrightarrow>
      (\<exists>raw. pgParse P st (butlast p1) = Inr raw \<and> pg2gql k P M raw st = Some (Inr v1))"
  shows "pg2gql (Suc k) P M (Str str) t =
       Some (Inr (Obj
         [(''start'', if 1 < length p0
                      then Obj [(''value'', v0), (''inclusive'', Bool (hd p0 = CHR ''[''))] else Null),
          (''end'', if 1 < length p1
                    then Obj [(''value'', v1), (''inclusive'', Bool (last p1 = CHR '']''))] else Null)]))"
proof -
  have b0: "decodeBound (pgParse P st) (\<lambda>v. pg2gql k P M v st)
               (if 1 < length p0 then Some (hd p0 = CHR ''['', drop 1 p0) else None) =
            Some (Inr (if 1 < length p0
                      then Obj [(''value'', v0), (''inclusive'', Bool (hd p0 = CHR ''[''))] else Null))"
    using assms(3) by (auto simp: decodeBound_none decodeBound_some)
  have b1: "decodeBound (pgParse P st) (\<lambda>v. pg2gql k P M v st)
               (if 1 < length p1 then Some (last p1 = CHR '']'', butlast p1) else None) =
            Some (Inr (if 1 < length p1
                    then Obj [(''value'', v1), (''inclusive'', Bool (last p1 = CHR '']''))] else Null))"
    using assms(4) by (auto simp: decodeBound_none decodeBound_some)
  show ?thesis by (rule pg2gql_range [OF assms(1) assms(2) b0 b1])
qed

text \<open>
  C4. Under the codec of a range whose subtype parses \<^verbatim>\<open>-10\<close> and \<^verbatim>\<open>52\<close> to these
  numbers, the literal \<^verbatim>\<open>[-10,52)\<close> decodes to a start of value -10, inclusive, and an
  end of value 52, exclusive. In general, a literal that the comma splits into
  two parts decodes part by part: a part longer than one character gives the
  flag read off its bracket (\<^verbatim>\<open>[\<close> in front, \<^verbatim>\<open>]\<close> behind) and the rest of its text
  put through the parser and the decoder of the subtype; a shorter part gives
  \<^verbatim>\<open>null\<close>.
\<close>

theorem range_decode:
  fixes M :: "nat \<Rightarrow> ('n :: ring_1) mapper option"
  shows
  "(mapperFor M t = Some (RangeMapper (Some st) rt) \<and>
    (\<exists>a. pgParse P st ''-10'' = Inr a \<and> pg2gql k P M a st = Some (Inr (Num (- 10)))) \<and>
    (\<exists>b. pgParse P st ''52'' = Inr b \<and> pg2gql k P M b st = Some (Inr (Num 52)))
    \<longrightarrow>
     pg2gql (Suc k) P M (Str ''[-10,52)'') t =
       Some (Inr (Obj
         [(''start'', Obj [(''value'', Num (- 10)), (''inclusive'', Bool True)]),
          (''end'', Obj [(''value'', Num 52), (''inclusive'', Bool False)])]))) \<and>
   (mapperFor M t = Some (RangeMapper (Some st) rt) \<and> split_on (CHR '','') str = [p0, p1] \<and>
    (1 < length p0 \<longrightarrow>
       (\<exists>raw. pgParse P st (drop 1 p0) = Inr raw \<and> pg2gql k P M raw st = Some (Inr v0))) \<and>
    (1 < length p1 \<longrightarrow>
       (\<exists>raw. pgParse P st (butlast p1) = Inr raw \<and> pg2gql k P M raw st = Some (Inr v1)))
    \<longrightarrow>
     pg2gql (Suc k) P M (Str str) t =
       Some (Inr (Obj
         [(''start'', if 1 < length p0
                      then Obj [(''value'', v0), (''inclusive'', Bool (hd p0 = CHR ''[''))] else Null),
          (''end'', if 1 < length p1
                    then Obj [(''value'', v1), (''inclusive'', Bool (last p1 = CHR '']''))] else Null)])))"
proof (intro conjI impI)
  assume h: "mapperFor M t = Some (RangeMapper (Some st) rt) \<and>
    (\<exists>a. pgParse P st ''-10'' = Inr a \<and> pg2gql k P M a st = Some (Inr (Num (- 10)))) \<and>
    (\<exists>b. pgParse P st ''52'' = Inr b \<and> pg2gql k P M b st = Some (Inr (Num 52)))"
  have sp: "split_on (CHR '','') ''[-10,52)'' = [''[-10'', ''52)'']" by simp
  have "pg2gql (Suc k) P M (Str ''[-10,52)'') t =
       Some (Inr (Obj
         [(''start'', if 1 < length ''[-10''
                      then Obj [(''value'', Num (- 10)), (''inclusive'', Bool (hd ''[-10'' = CHR ''[''))] else Null),
          (''end'', if 1 < length ''52)''
                    then Obj [(''value'', Num 52), (''inclusive'', Bool (last ''52)'' = CHR '']''))] else Null)]))"
    using h sp by (intro range_decode_general) auto
  then show "pg2gql (Suc k) P M (Str ''[-10,52)'') t =
       Some (Inr (Obj
         [(''start'', Obj [(''value'', Num (- 10)), (''inclusive'', Bool True)]),
          (''end'', Obj [(''value'', Num 52), (''inclusive'', Bool False)])]))"
    by simp
next
  assume "mapperFor M t = Some (RangeMapper (Some st) rt) \<and> split_on (CHR '','') str = [p0, p1] \<and>
    (1 < length p0 \<longrightarrow>
       (\<exists>raw. pgParse P st (drop 1 p0) = Inr raw \<and> pg2gql k P M raw st = Some (Inr v0))) \<and>
    (1 < length p1 \<longrightarrow>
       (\<exists>raw. pgParse P st (butlast p1) = Inr raw \<and> pg2gql k P M raw st = Some (Inr v1)))"
  then show "pg2gql (Suc k) P M (Str str) t =
       Some (Inr (Obj
         [(''start'', if 1 < length p0
                      then Obj [(''value'', v0), (''inclusive'', Bool (hd p0 = CHR ''[''))] else Null),
          (''end'', if 1 < length p1
                    then Obj [(''value'', v1), (''inclusive'', Bool (last p1 = CHR '']''))] else Null)]))"
    by (intro range_decode_general) auto
qed

theorem range_decode_witness:
  "pg2gql (Suc (Suc 0)) sampleTypeParser sampleMappers (Str ''[-10,52)'') pgInt4Range =
     Some (Inr (Obj
       [(''start'', Obj [(''value'', Num (- 10)), (''inclusive'', Bool True)]),
        (''end'', Obj [(''value'', Num 52), (''inclusive'', Bool False)])])) \<and>
   pg2gql (Suc (Suc 0)) sampleTypeParser sampleMappers (Str ''(,7]'') pgInt4Range =
     Some (Inr (Obj
       [(''start'', Null),
        (''end'', Obj [(''value'', Num 7), (''inclusive'', Bool True)])]))"
proof
  have m: "mapperFor sampleMappers pgInt4Range = Some (RangeMapper (Some pgInt4) pgInt4Range)"
    by (simp add: mapperFor_def sampleMappers_def pgInt4Range_def)
  have a: "pgParse sampleTypeParser pgInt4 ''-10'' = Inr (Num (- 10))"
    by (simp add: pgParse_def pgInt4_def rawTypes_def sampleTypeParser_def digitsValue_def)
  have b: "pgParse sampleTypeParser pgInt4 ''52'' = Inr (Num 52)"
    by (simp add: pgParse_def pgInt4_def rawTypes_def sampleTypeParser_def digitsValue_def)
  have n: "pg2gql (Suc 0) sampleTypeParser sampleMappers (Num n) pgInt4 = Some (Inr (Num n))" for n
    by (simp add: mapperFor_def sampleMappers_def pgInt4_def)
  from m a b n
  show "pg2gql (Suc (Suc 0)) sampleTypeParser sampleMappers (Str ''[-10,52)'') pgInt4Range =
     Some (Inr (Obj
       [(''start'', Obj [(''value'', Num (- 10)), (''inclusive'', Bool True)]),
        (''end'', Obj [(''value'', Num 52), (''inclusive'', Bool False)])]))"
    by (intro range_decode [THEN conjunct1, rule_format]) blast
next
  have "mapperFor sampleMappers pgInt4Range = Some (RangeMapper (Some pgInt4) pgInt4Range)"
    by (simp add: mapperFor_def sampleMappers_def pgInt4Range_def)
  moreover have "split_on (CHR '','') ''(,7]'' = [''('', ''7]'']" by simp
  moreover have "pgParse sampleTypeParser pgInt4 (butlast ''7]'') = Inr (Num 7)"
    by (simp add: pgParse_def pgInt4_def rawTypes_def sampleTypeParser_def digitsValue_def)
  moreover have "pg2gql (Suc 0) sampleTypeParser sampleMappers (Num n) pgInt4 = Some (Inr (Num n))" for n
    by (simp add: mapperFor_def sampleMappers_def pgInt4_def)
  moreover have "\<not> 1 < length ''(''" by simp
  ultimately have "pg2gql (Suc (Suc 0)) sampleTypeParser sampleMappers (Str ''(,7]'') pgInt4Range =
       Some (Inr (Obj
         [(''start'', if 1 < length ''(''
                      then Obj [(''value'', Undefined), (''inclusive'', Bool (hd ''('' = CHR ''[''))] else Null),
          (''end'', if 1 < length ''7]''
                    then Obj [(''value'', Num 7), (''inclusive'', Bool (last ''7]'' = CHR '']''))] else Null)]))"
    by (intro range_decode [THEN conjunct2, rule_format]) blast
  then show "pg2gql (Suc (Suc 0)) sampleTypeParser sampleMappers (Str ''(,7]'') pgInt4Range =
     Some (Inr (Obj
       [(''start'', Null),
        (''end'', Obj [(''value'', Num 7), (''inclusive'', Bool True)])]))"
    by simp
qed

subsection \<open>Node identifiers\<close>

lemma setProperty_other: "T \<noteq> ''__proto__'' \<Longrightarrow> setProperty k v obj T = (if T = k then Some v else obj T)"
  by (simp add: setProperty_def)

lemma nodeAlias_after_calls:
  "T \<noteq> ''__proto__'' \<Longrightarrow>
   nodeAliasByTypeName (foldl (\<lambda>s c. setNodeAlias (fst c) (snd c) s) s0 calls) T =
     (case map_of (rev calls) T of None \<Rightarrow> nodeAliasByTypeName s0 T | Some alias \<Rightarrow> Some alias)"
proof (induction calls rule: rev_induct)
  case Nil
  then show ?case by simp
next
  case (snoc c calls)
  then show ?case by (simp add: setNodeAlias_def setProperty_other)
qed

text \<open>
  C8, as amended. Let the name of the type be none of the names that every object
  inherits. After any sequence of \<^verbatim>\<open>setNodeAlias\<close> calls, the identifier of the type and
  key parts is the base64 encoding of the JSON text of the array that starts with the
  alias set last for the type, or with the type's own name when no alias was set or
  the alias set last is the empty string, and continues with the key parts in order.
\<close>

theorem node_id_encoding:
  assumes "T \<notin> set inheritedProperties"
  shows "getNodeIdForTypeAndIdentifiers base64 stringify
           (foldl (\<lambda>s c. setNodeAlias (fst c) (snd c) s) emptyNodeState calls) T ids =
         base64 (stringify (Value (Str (case map_of (rev calls) T of
                                          None \<Rightarrow> T
                                        | Some alias \<Rightarrow> if alias = [] then T else alias))
                            # map Value ids))"
proof -
  from assms have p: "T \<noteq> ''__proto__''" by (auto simp: inheritedProperties_def)
  show ?thesis
    unfolding getNodeIdForTypeAndIdentifiers_def getNodeAlias_def nodeAlias_after_calls [OF p]
    using assms p by (simp add: emptyNodeState_def split: option.splits)
qed

theorem node_id_encoding_witness:
  "''User'' \<notin> set inheritedProperties \<and>
   getNodeIdForTypeAndIdentifiers sampleBase64 sampleStringifyArray
     (setNodeAlias ''User'' ''U'' (setNodeAlias ''Post'' ''P'' emptyNodeState)) ''User'' [Num 1]
     = ''WyJVIiwxXQ=='' \<and>
   sampleBase64 (sampleStringifyArray [Value (Str ''U''), Value (Num 1)]) = ''WyJVIiwxXQ==''"
proof -
  have n: "''User'' \<notin> set inheritedProperties" by (simp add: inheritedProperties_def)
  have e: "sampleBase64 (sampleStringifyArray [Value (Str ''U''), Value (Num 1)]) = ''WyJVIiwxXQ==''"
    by (simp add: sampleStringifyArray_def sampleBase64_def quoteJSON_def base64Alphabet_def)
  from node_id_encoding [OF n, of sampleBase64 sampleStringifyArray
      "[(''Post'', ''P''), (''User'', ''U'')]" "[Num 1]"] e
  have "getNodeIdForTypeAndIdentifiers sampleBase64 sampleStringifyArray
     (setNodeAlias ''User'' ''U'' (setNodeAlias ''Post'' ''P'' emptyNodeState)) ''User'' [Num 1]
     = ''WyJVIiwxXQ==''"
    by simp
  with n e show ?thesis by simp
qed

text \<open>
  C8 as stated fails after \<^verbatim>\<open>setNodeAlias("User", "")\<close>: the identifier encodes
  \<^verbatim>\<open>["User",1]\<close>, not \<^verbatim>\<open>["",1]\<close>. It also fails, with no alias set, for a type
  named \<^verbatim>\<open>toString\<close>: the identifier encodes \<^verbatim>\<open>[null,1]\<close>, not \<^verbatim>\<open>["toString",1]\<close>.
\<close>

theorem node_id_empty_alias_counterexample:
  "getNodeIdForTypeAndIdentifiers sampleBase64 sampleStringifyArray
       (setNodeAlias ''User'' [] emptyNodeState) ''User'' [Num 1] = ''WyJVc2VyIiwxXQ=='' \<and>
   sampleBase64 (sampleStringifyArray [Value (Str ''User''), Value (Num 1)]) = ''WyJVc2VyIiwxXQ=='' \<and>
   sampleBase64 (sampleStringifyArray [Value (Str []), Value (Num 1)]) = ''WyIiLDFd'' \<and>
   getNodeIdForTypeAndIdentifiers sampleBase64 sampleStringifyArray
       emptyNodeState ''toString'' [Num 1] = ''W251bGwsMV0='' \<and>
   sampleBase64 (sampleStringifyArray [Value (Str ''toString''), Value (Num 1)])
     = ''WyJ0b1N0cmluZyIsMV0=''"
  by (simp add: getNodeIdForTypeAndIdentifiers_def getNodeAlias_def setNodeAlias_def setProperty_def
        emptyNodeState_def inheritedProperties_def sampleStringifyArray_def
        sampleBase64_def quoteJSON_def base64Alphabet_def)

subsection \<open>Enum members\<close>

lemma map_of_assign: "map_of (assign k v kvs) = (map_of kvs)(k \<mapsto> v)"
  by (induction kvs) auto

lemma keys_assign: "fst ` set (assign k v kvs) = insert k (fst ` set kvs)"
  by (simp add: dom_map_of_conv_image_fst [symmetric] map_of_assign)

lemma distinct_assign: "distinct (map fst kvs) \<Longrightarrow> distinct (map fst (assign k v kvs))"
proof (induction kvs)
  case Nil
  then show ?case by simp
next
  case (Cons kv kvs)
  obtain k' v' where kv: "kv = (k', v')" by (cases kv)
  show ?case
  proof (cases "k = k'")
    case True
    with Cons.prems kv show ?thesis by simp
  next
    case False
    from Cons.prems kv have "k' \<notin> fst ` set kvs" by simp
    with False have "k' \<notin> fst ` set (assign k v kvs)" by (simp add: keys_assign)
    moreover from Cons have "distinct (map fst (assign k v kvs))" by simp
    ultimately show ?thesis using False kv by simp
  qed
qed

lemma enumValues_merge:
  "(\<forall>v\<in>set vs. \<exists>n. enumName v = Inr n) \<Longrightarrow> distinct (map fst memo) \<Longrightarrow>
     \<exists>memo'. enumValues vs memo = Inr memo' \<and> distinct (map fst memo') \<and>
       (\<forall>n. map_of memo' n =
              (case filter (\<lambda>v. enumName v = Inr n) vs of
                 [] \<Rightarrow> map_of memo n
               | w # ws \<Rightarrow> Some (last (w # ws))))"
proof (induction vs arbitrary: memo)
  case Nil
  then show ?case by simp
next
  case (Cons v vs)
  from Cons.prems obtain nm where nm: "enumName v = Inr nm" by auto
  have d: "distinct (map fst (assign nm v memo))" using Cons.prems by (simp add: distinct_assign)
  from Cons.IH [OF _ d] Cons.prems obtain memo' where
    r: "enumValues vs (assign nm v memo) = Inr memo'" and dd: "distinct (map fst memo')"
    and m: "\<forall>n. map_of memo' n =
              (case filter (\<lambda>v. enumName v = Inr n) vs of
                 [] \<Rightarrow> map_of (assign nm v memo) n
               | w # ws \<Rightarrow> Some (last (w # ws)))"
    by auto
  have "map_of memo' n =
          (case filter (\<lambda>v. enumName v = Inr n) (v # vs) of
             [] \<Rightarrow> map_of memo n
           | w # ws \<Rightarrow> Some (last (w # ws)))" for n
    using m [rule_format, of n] nm by (auto simp: map_of_assign split: list.splits)
  with r dd nm show ?case by simp
qed

lemma set_ownEntries: "set (ownEntries kvs) = set kvs"
  by (auto simp: ownEntries_def)

lemma distinct_ownEntries:
  assumes "distinct (map fst kvs)"
  shows "distinct (map fst (ownEntries kvs))"
proof -
  from assms have d: "distinct kvs" and i: "inj_on fst (set kvs)" by (simp_all add: distinct_map)
  have "distinct (ownEntries kvs)" using d by (auto simp: ownEntries_def)
  moreover have "inj_on fst (set (ownEntries kvs))" using i by (simp add: set_ownEntries)
  ultimately show ?thesis by (simp add: distinct_map)
qed

lemma map_of_ownEntries:
  assumes "distinct (map fst kvs)"
  shows "map_of (ownEntries kvs) = map_of kvs"
  using map_of_inject_set [OF distinct_ownEntries [OF assms] assms] by (simp add: set_ownEntries)

text \<open>
  C2, as amended. When the enum rule applies and every variant has a derived
  name, the rule succeeds, whether or not two variants derive the same name: the
  members are the derived names, each once, and the value of a member is the last
  variant that derives it.
\<close>

theorem enum_collision_merges:
  "gqlTypeByTypeId s i = None \<and> t_type t = ''e'' \<and> enumType E t = Inr name \<and>
   t_enumVariants t = Some variants \<and> (\<forall>v\<in>set variants. \<exists>n. enumName v = Inr n) \<longrightarrow>
     (\<exists>vals.
        enumPhase E t i s =
          (Return (),
           s\<lparr>gqlTypeByTypeId := (gqlTypeByTypeId s)
                (i \<mapsto> GraphQLEnumType (nextRef s) name (t_description t) vals),
             nextRef := nextRef s + 1\<rparr>) \<and>
        distinct (map fst vals) \<and>
        (\<forall>n. map_of vals n =
               (case filter (\<lambda>v. enumName v = Inr n) variants of
                  [] \<Rightarrow> None
                | w # ws \<Rightarrow> Some (last (w # ws)))))"
proof
  assume h: "gqlTypeByTypeId s i = None \<and> t_type t = ''e'' \<and> enumType E t = Inr name \<and>
   t_enumVariants t = Some variants \<and> (\<forall>v\<in>set variants. \<exists>n. enumName v = Inr n)"
  then obtain memo where v: "enumValues variants [] = Inr memo"
    and d0: "distinct (map fst memo)"
    and m: "\<forall>n. map_of memo n =
              (case filter (\<lambda>v. enumName v = Inr n) variants of
                 [] \<Rightarrow> map_of [] n
               | w # ws \<Rightarrow> Some (last (w # ws)))"
    using enumValues_merge [of variants "[]"] by auto
  define vals where "vals = ownEntries memo"
  have d: "distinct (map fst vals)" unfolding vals_def using d0 by (rule distinct_ownEntries)
  have m': "\<forall>n. map_of vals n =
               (case filter (\<lambda>v. enumName v = Inr n) variants of
                  [] \<Rightarrow> None
                | w # ws \<Rightarrow> Some (last (w # ws)))"
    unfolding vals_def map_of_ownEntries [OF d0] using m by (simp split: list.splits)
  have e: "enumPhase E t i s =
          (Return (),
           s\<lparr>gqlTypeByTypeId := (gqlTypeByTypeId s)
                (i \<mapsto> GraphQLEnumType (nextRef s) name (t_description t) vals),
             nextRef := nextRef s + 1\<rparr>)"
    using h v by (simp add: enumPhase_def vals_def)
  from e d m' show "\<exists>vals.
        enumPhase E t i s =
          (Return (),
           s\<lparr>gqlTypeByTypeId := (gqlTypeByTypeId s)
                (i \<mapsto> GraphQLEnumType (nextRef s) name (t_description t) vals),
             nextRef := nextRef s + 1\<rparr>) \<and>
        distinct (map fst vals) \<and>
        (\<forall>n. map_of vals n =
               (case filter (\<lambda>v. enumName v = Inr n) variants of
                  [] \<Rightarrow> None
                | w # ws \<Rightarrow> Some (last (w # ws))))"
    by blast
qed

lemma enumName_gt: "enumName ''>'' = Inr ''GREATER_THAN''"
  by (simp add: enumName_def replace_all_def leadingAsterisk_def trailingAsterisk_def
        enumSymbols_def preventEmptyResult_def)

lemma enumName_GT: "enumName ''GREATER_THAN'' = Inr ''GREATER_THAN''"
  by (simp add: enumName_def replace_all_def leadingAsterisk_def trailingAsterisk_def
        enumSymbols_def preventEmptyResult_def inheritedProperties_def)

text \<open>
  C2 as stated fails on the variants \<^verbatim>\<open>>\<close> and \<^verbatim>\<open>GREATER_THAN\<close>: the resolution returns
  an enum type with the single member \<^verbatim>\<open>GREATER_THAN\<close>.
\<close>

theorem enum_collision_counterexample:
  "returned
     (enforceGqlTypeByPgType (Suc 0) (sampleEnv [pgComparison]) (Some pgComparison) sampleState) =
   Some (Return (GraphQLEnumType 22 ''Comparison'' None [(''GREATER_THAN'', ''GREATER_THAN'')]))"
  by (simp add: sampleEnv_def sampleState_def initialState_def pgComparison_def
        reallyEnforceGqlTypeByPgType_def explicitOverrides_def oidLookup_def oidInputLookup_def
        enumPhase_def rangePhase_def domainPhase_def categoryPhase_def stringFallback_def
        inputFallback_def enumType_def inflTypeName_def preventEmptyResult_def
        enumName_gt enumName_GT sampleAddType_def Let_def returned_def
        sampleUpperCamelCase_def upperFirst_def sampleTypes_def
        ownEntries_def isArrayIndex_def is_digit_def)

theorem enum_collision_merges_witness:
  "\<exists>vals.
     enumPhase (sampleEnv [pgComparison]) pgComparison 100100 sampleState =
       (Return (),
        sampleState\<lparr>gqlTypeByTypeId := (gqlTypeByTypeId sampleState)
             (100100 \<mapsto> GraphQLEnumType (nextRef sampleState) ''Comparison''
                            (t_description pgComparison) vals),
          nextRef := nextRef sampleState + 1\<rparr>) \<and>
     map_of vals ''GREATER_THAN'' = Some ''GREATER_THAN'' \<and> map_of vals ''>'' = None"
proof -
  have h: "gqlTypeByTypeId sampleState 100100 = None \<and> t_type pgComparison = ''e'' \<and>
      enumType (sampleEnv [pgComparison]) pgComparison = Inr ''Comparison'' \<and>
      t_enumVariants pgComparison = Some [''>'', ''GREATER_THAN''] \<and>
      (\<forall>v\<in>set [''>'', ''GREATER_THAN'']. \<exists>n. enumName v = Inr n)"
    by (simp add: sampleState_def initialState_def pgComparison_def enumType_def inflTypeName_def
          preventEmptyResult_def sampleEnv_def enumName_gt enumName_GT
          sampleUpperCamelCase_def upperFirst_def)
  from enum_collision_merges [of sampleState 100100 pgComparison "sampleEnv [pgComparison]"
      "''Comparison''" "[''>'', ''GREATER_THAN'']"] h
  obtain vals where
    e: "enumPhase (sampleEnv [pgComparison]) pgComparison 100100 sampleState =
       (Return (),
        sampleState\<lparr>gqlTypeByTypeId := (gqlTypeByTypeId sampleState)
             (100100 \<mapsto> GraphQLEnumType (nextRef sampleState) ''Comparison''
                            (t_description pgComparison) vals),
          nextRef := nextRef sampleState + 1\<rparr>)"
    and m: "\<forall>n. map_of vals n =
               (case filter (\<lambda>v. enumName v = Inr n) [''>'', ''GREATER_THAN''] of
                  [] \<Rightarrow> None
                | w # ws \<Rightarrow> Some (last (w # ws)))"
    by blast
  from m [rule_format, of "''GREATER_THAN''"]
  have a: "map_of vals ''GREATER_THAN'' = Some ''GREATER_THAN''"
    by (simp add: enumName_gt enumName_GT)
  from m [rule_format, of "''>''"]
  have b: "map_of vals ''>'' = None"
    by (simp add: enumName_gt enumName_GT)
  from e a b show ?thesis by blast
qed

subsection \<open>Domains\<close>

lemmas sample_simps =
  sampleEnv_def sampleState_def initialState_def sampleTypes_def
  reallyEnforceGqlTypeByPgType_def explicitOverrides_def oidLookup_def oidInputLookup_def
  enumPhase_def rangePhase_def domainPhase_def categoryPhase_def stringFallback_def
  inputFallback_def domainType_def inputType_def inflTypeName_def preventEmptyResult_def
  sampleAddType_def Let_def sampleUpperCamelCase_def upperFirst_def
  Point_def PointInput_def GraphQLFloat_def GraphQLString_def

lemma alias_props:
  "(\<forall>k. k \<noteq> ''name'' \<and> k \<noteq> ''description'' \<longrightarrow>
       getTypeProp (Alias r p n d) k = getTypeProp p k) \<and>
   getTypeProp (Alias r p n d) ''name'' = PString n \<and>
   getTypeProp (Alias r p n d) ''description'' = optString d"
  by simp

lemma domainPhase_same_input:
  assumes "gqlTypeByTypeId s i = None" "t_type t = ''d''" "t_domainBaseTypeId t = Some j"
    and "rec (t_domainBaseType t) s = Some (Return baseType, s1)" "domainType E t = Inr name"
    and "\<not> (\<exists>inp. gqlInputTypeByTypeId s1 j = Some inp \<and> ref inp \<noteq> ref baseType)"
  shows "domainPhase rec E t i s =
           Some (Return (),
             s1\<lparr>gqlTypeByTypeId := (gqlTypeByTypeId s1)
                  (i \<mapsto> Alias (nextRef s1) baseType name (t_description t)),
                nextRef := nextRef s1 + 1\<rparr>)"
  using assms by (cases "gqlInputTypeByTypeId s1 j") (simp_all add: domainPhase_def Let_def)

lemma domainPhase_distinct_input:
  assumes "gqlTypeByTypeId s i = None" "t_type t = ''d''" "t_domainBaseTypeId t = Some j"
    and "rec (t_domainBaseType t) s = Some (Return baseType, s1)" "domainType E t = Inr name"
    and "gqlInputTypeByTypeId s1 j = Some inp" "ref inp \<noteq> ref baseType"
    and "inputType E (toString (Alias (nextRef s1) baseType name (t_description t))) = Inr inputName"
  shows "domainPhase rec E t i s =
           Some (Return (),
             s1\<lparr>gqlTypeByTypeId := (gqlTypeByTypeId s1)
                  (i \<mapsto> Alias (nextRef s1) baseType name (t_description t)),
                gqlInputTypeByTypeId := (gqlInputTypeByTypeId s1)
                  (i \<mapsto> Alias (nextRef s1 + 1) inp inputName (t_description t)),
                nextRef := nextRef s1 + 2\<rparr>)"
  using assms by (simp add: domainPhase_def Let_def)

text \<open>
  C7, as amended. When the domain rule applies (no type stored for the id, kind
  \<^verbatim>\<open>d\<close>, a base type id), the base type resolves and the name of the domain is
  derived: the output type is an alias of the base output type, which reads every
  property from it except its own name and description. If the input type
  stored for the base id is missing or is the very object of the base output
  type, the rule stores no input type; otherwise it stores an alias of that input
  type, under the input-type name that the inflector derives from the output
  alias, with the description of the domain.
\<close>

theorem domain_alias:
  "gqlTypeByTypeId s i = None \<and> t_type t = ''d'' \<and> t_domainBaseTypeId t = Some j \<and>
   rec (t_domainBaseType t) s = Some (Return baseType, s1) \<and> domainType E t = Inr name \<longrightarrow>
     (\<forall>k. k \<noteq> ''name'' \<and> k \<noteq> ''description'' \<longrightarrow>
        getTypeProp (Alias (nextRef s1) baseType name (t_description t)) k = getTypeProp baseType k) \<and>
     getTypeProp (Alias (nextRef s1) baseType name (t_description t)) ''name'' = PString name \<and>
     getTypeProp (Alias (nextRef s1) baseType name (t_description t)) ''description''
       = optString (t_description t) \<and>
     (\<not> (\<exists>inp. gqlInputTypeByTypeId s1 j = Some inp \<and> ref inp \<noteq> ref baseType) \<longrightarrow>
        domainPhase rec E t i s =
          Some (Return (),
            s1\<lparr>gqlTypeByTypeId := (gqlTypeByTypeId s1)
                 (i \<mapsto> Alias (nextRef s1) baseType name (t_description t)),
               nextRef := nextRef s1 + 1\<rparr>)) \<and>
     (\<forall>inp inputName.
        gqlInputTypeByTypeId s1 j = Some inp \<and> ref inp \<noteq> ref baseType \<and>
        inputType E (toString (Alias (nextRef s1) baseType name (t_description t))) = Inr inputName \<longrightarrow>
        domainPhase rec E t i s =
          Some (Return (),
            s1\<lparr>gqlTypeByTypeId := (gqlTypeByTypeId s1)
                 (i \<mapsto> Alias (nextRef s1) baseType name (t_description t)),
               gqlInputTypeByTypeId := (gqlInputTypeByTypeId s1)
                 (i \<mapsto> Alias (nextRef s1 + 1) inp inputName (t_description t)),
               nextRef := nextRef s1 + 2\<rparr>))"
proof (intro impI conjI allI)
  fix k
  assume "k \<noteq> ''name'' \<and> k \<noteq> ''description''"
  then show "getTypeProp (Alias (nextRef s1) baseType name (t_description t)) k = getTypeProp baseType k"
    by simp
next
  show "getTypeProp (Alias (nextRef s1) baseType name (t_description t)) ''name'' = PString name"
    by simp
next
  show "getTypeProp (Alias (nextRef s1) baseType name (t_description t)) ''description''
       = optString (t_description t)"
    by simp
next
  assume "gqlTypeByTypeId s i = None \<and> t_type t = ''d'' \<and> t_domainBaseTypeId t = Some j \<and>
   rec (t_domainBaseType t) s = Some (Return baseType, s1) \<and> domainType E t = Inr name"
    and "\<not> (\<exists>inp. gqlInputTypeByTypeId s1 j = Some inp \<and> ref inp \<noteq> ref baseType)"
  then show "domainPhase rec E t i s =
          Some (Return (),
            s1\<lparr>gqlTypeByTypeId := (gqlTypeByTypeId s1)
                 (i \<mapsto> Alias (nextRef s1) baseType name (t_description t)),
               nextRef := nextRef s1 + 1\<rparr>)"
    by (intro domainPhase_same_input [of s i t j]) auto
next
  fix inp inputName
  assume "gqlTypeByTypeId s i = None \<and> t_type t = ''d'' \<and> t_domainBaseTypeId t = Some j \<and>
   rec (t_domainBaseType t) s = Some (Return baseType, s1) \<and> domainType E t = Inr name"
    and "gqlInputTypeByTypeId s1 j = Some inp \<and> ref inp \<noteq> ref baseType \<and>
        inputType E (toString (Alias (nextRef s1) baseType name (t_description t))) = Inr inputName"
  then show "domainPhase rec E t i s =
          Some (Return (),
            s1\<lparr>gqlTypeByTypeId := (gqlTypeByTypeId s1)
                 (i \<mapsto> Alias (nextRef s1) baseType name (t_description t)),
               gqlInputTypeByTypeId := (gqlInputTypeByTypeId s1)
                 (i \<mapsto> Alias (nextRef s1 + 1) inp inputName (t_description t)),
               nextRef := nextRef s1 + 2\<rparr>)"
    by (intro domainPhase_distinct_input [of s i t j]) auto
qed


theorem domain_alias_witness:
  "inputTypeAfter
     (domainPhase (enforceGqlTypeByPgType (Suc 0) (sampleEnv [pgPoint, pgLocation]))
        (sampleEnv [pgPoint, pgLocation]) pgLocation 100200 sampleState) 100200
     = Some (Alias 23 PointInput ''LocationInput'' (Some ''A place'')) \<and>
   inputTypeAfter
     (domainPhase (enforceGqlTypeByPgType (Suc 0) (sampleEnv [pgText]))
        (sampleEnv [pgText]) (domainTower (Suc 0)) 100000 sampleState) 100000
     = None"
proof
  define E where "E = sampleEnv [pgPoint, pgLocation]"
  define s1 where "s1 = snd (the (enforceGqlTypeByPgType (Suc 0) E (Some pgPoint) sampleState))"
  have r: "enforceGqlTypeByPgType (Suc 0) E (t_domainBaseType pgLocation) sampleState
             = Some (Return Point, s1)"
    by (simp add: s1_def E_def sample_simps pgLocation_def pgPoint_def)
  have i: "gqlInputTypeByTypeId s1 600 = Some PointInput" and n: "nextRef s1 = 22"
    by (simp_all add: s1_def E_def sample_simps pgPoint_def)
  have h: "gqlTypeByTypeId sampleState 100200 = None \<and> t_type pgLocation = ''d'' \<and>
      t_domainBaseTypeId pgLocation = Some 600 \<and>
      enforceGqlTypeByPgType (Suc 0) E (t_domainBaseType pgLocation) sampleState
        = Some (Return Point, s1) \<and>
      domainType E pgLocation = Inr ''Location''"
    using r by (simp add: E_def sample_simps pgLocation_def)
  have c: "gqlInputTypeByTypeId s1 600 = Some PointInput \<and> ref PointInput \<noteq> ref Point \<and>
      inputType E (toString (Alias (nextRef s1) Point ''Location'' (t_description pgLocation)))
        = Inr ''LocationInput''"
    using i by (simp add: E_def sample_simps)
  from domain_alias [of sampleState 100200 pgLocation 600 "enforceGqlTypeByPgType (Suc 0) E"
      Point s1 E "''Location''"] h c
  have "domainPhase (enforceGqlTypeByPgType (Suc 0) E) E pgLocation 100200 sampleState =
          Some (Return (),
            s1\<lparr>gqlTypeByTypeId := (gqlTypeByTypeId s1)
                 (100200 \<mapsto> Alias (nextRef s1) Point ''Location'' (t_description pgLocation)),
               gqlInputTypeByTypeId := (gqlInputTypeByTypeId s1)
                 (100200 \<mapsto> Alias (nextRef s1 + 1) PointInput ''LocationInput''
                                (t_description pgLocation)),
               nextRef := nextRef s1 + 2\<rparr>)"
    by blast
  then show "inputTypeAfter
     (domainPhase (enforceGqlTypeByPgType (Suc 0) (sampleEnv [pgPoint, pgLocation]))
        (sampleEnv [pgPoint, pgLocation]) pgLocation 100200 sampleState) 100200
     = Some (Alias 23 PointInput ''LocationInput'' (Some ''A place''))"
    using n by (simp add: inputTypeAfter_def E_def pgLocation_def)
next
  define E where "E = sampleEnv [pgText]"
  define s1 where "s1 = snd (the (enforceGqlTypeByPgType (Suc 0) E (Some pgText) sampleState))"
  have r: "enforceGqlTypeByPgType (Suc 0) E (t_domainBaseType (domainTower (Suc 0))) sampleState
             = Some (Return GraphQLString, s1)"
    by (simp add: s1_def E_def sample_simps pgText_def)
  have i: "gqlInputTypeByTypeId s1 25 = Some GraphQLString"
    and j: "gqlInputTypeByTypeId s1 100000 = None"
    by (simp_all add: s1_def E_def sample_simps pgText_def)
  have h: "gqlTypeByTypeId sampleState 100000 = None \<and> t_type (domainTower (Suc 0)) = ''d'' \<and>
      t_domainBaseTypeId (domainTower (Suc 0)) = Some 25 \<and>
      enforceGqlTypeByPgType (Suc 0) E (t_domainBaseType (domainTower (Suc 0))) sampleState
        = Some (Return GraphQLString, s1) \<and>
      domainType E (domainTower (Suc 0)) = Inr ''D''"
    using r by (simp add: E_def sample_simps pgText_def)
  have c: "\<not> (\<exists>inp. gqlInputTypeByTypeId s1 25 = Some inp \<and> ref inp \<noteq> ref GraphQLString)"
    using i by simp
  from domain_alias [of sampleState 100000 "domainTower (Suc 0)" 25
      "enforceGqlTypeByPgType (Suc 0) E" GraphQLString s1 E "''D''"] h c
  have "domainPhase (enforceGqlTypeByPgType (Suc 0) E) E (domainTower (Suc 0)) 100000 sampleState =
          Some (Return (),
            s1\<lparr>gqlTypeByTypeId := (gqlTypeByTypeId s1)
                 (100000 \<mapsto> Alias (nextRef s1) GraphQLString ''D''
                                (t_description (domainTower (Suc 0)))),
               nextRef := nextRef s1 + 1\<rparr>)"
    by blast
  then show "inputTypeAfter
     (domainPhase (enforceGqlTypeByPgType (Suc 0) (sampleEnv [pgText]))
        (sampleEnv [pgText]) (domainTower (Suc 0)) 100000 sampleState) 100000
     = None"
    using j by (simp add: inputTypeAfter_def E_def)
qed

text \<open>
  C7 as stated fails on a domain \<^verbatim>\<open>location\<close> over \<^verbatim>\<open>point\<close>: the output alias carries the
  name of the domain, the input alias the input-type name derived from it.
\<close>

theorem domain_input_alias_name_counterexample:
  "outputTypeAfter
     (enforceGqlTypeByPgType (Suc (Suc 0)) (sampleEnv [pgPoint, pgLocation]) (Some pgLocation) sampleState)
     100200 = Some (Alias 22 Point ''Location'' (Some ''A place'')) \<and>
   inputTypeAfter
     (enforceGqlTypeByPgType (Suc (Suc 0)) (sampleEnv [pgPoint, pgLocation]) (Some pgLocation) sampleState)
     100200 = Some (Alias 23 PointInput ''LocationInput'' (Some ''A place''))"
  by (simp add: sample_simps outputTypeAfter_def inputTypeAfter_def pgLocation_def pgPoint_def)

subsection \<open>What every resolution preserves\<close>
















lemma inputFallback_keeps: "keeps s (inputFallback E i g s)"
  by (simp add: inputFallback_def keeps_def)





lemma depthOk_Return: "depthOk (Return u) s s' \<longleftrightarrow> depth s' = depth s"
  by (simp add: depthOk_def)

lemma depthOk_Throw: "depthOk (Throw e) s s' \<longleftrightarrow> depth s \<le> depth s' \<and> depth s' \<le> depth s + 1"
  by (simp add: depthOk_def)




subsection \<open>The depth limit\<close>

lemma sampleTypes_added:
  "addTypes (sampleEnv ts) (hookTypes True False) Map.empty = Inr sampleTypes"
  by (simp add: hookTypes_def sampleEnv_def sampleAddType_def sampleTypes_def GQLInterval_def
        GQLIntervalInput_def BigFloat_def BitString_def JSONType_def GraphQLJSON_def
        SimpleUUID_def SimpleDate_def SimpleDatetime_def SimpleTime_def)

lemma oidLookup_high: "100000 \<le> i \<Longrightarrow> oidLookup a b i = None"
  by (simp add: oidLookup_def)

lemma oidInputLookup_high: "100000 \<le> i \<Longrightarrow> oidInputLookup i = None"
  by (simp add: oidInputLookup_def)

lemma explicitOverrides_high: "100000 \<le> i \<Longrightarrow> explicitOverrides E i s = s"
  by (simp add: explicitOverrides_def oidLookup_high oidInputLookup_high)

lemma rootCause_processingError: "rootCause (processingError t e) = rootCause e"
  by (simp add: processingError_def)

lemma rootCause_tooDeep: "rootCause tooDeep = tooDeep"
  by (simp add: tooDeep_def)

lemma enforce_at_limit:
  "50 \<le> depth s \<Longrightarrow>
     enforceGqlTypeByPgType (Suc k) E ty s = Some (Throw tooDeep, s\<lparr>depth := depth s + 1\<rparr>)"
  by (simp add: Let_def)

lemma tower_id: "t_id (domainTower n) = Some (case n of 0 \<Rightarrow> 25 | Suc m \<Rightarrow> 100000 + m)"
  by (cases n) (simp_all add: pgText_def)

lemma enforce_domain_throws:
  assumes d: "depth s < 50" and i: "gqlTypeByTypeId s (100000 + n) = None"
    and r: "enforceGqlTypeByPgType k E (Some (domainTower n)) (s\<lparr>depth := depth s + 1\<rparr>)
              = Some (Throw e, s\<lparr>depth := depth s + 2\<rparr>)"
  shows "enforceGqlTypeByPgType (Suc k) E (Some (domainTower (Suc n))) s
           = Some (Throw (processingError (domainTower (Suc n)) e), s\<lparr>depth := depth s + 1\<rparr>)"
proof -
  have "reallyEnforceGqlTypeByPgType (\<lambda>ty' s'. enforceGqlTypeByPgType k E ty' s') E
          (domainTower (Suc n)) (s\<lparr>depth := depth s + 1\<rparr>)
        = Some (Throw e, s\<lparr>depth := depth s + 2\<rparr>)"
    using i r
    by (simp add: reallyEnforceGqlTypeByPgType_def explicitOverrides_high enumPhase_def
          rangePhase_def domainPhase_def tower_id)
  then show ?thesis using d by (simp add: Let_def del: domainTower.simps)
qed

lemma tower_too_deep:
  "50 \<le> depth s + n \<Longrightarrow> 1 \<le> k \<Longrightarrow> 51 - depth s \<le> k \<Longrightarrow>
   (\<forall>m<n. gqlTypeByTypeId s (100000 + m) = None) \<Longrightarrow>
     \<exists>e. enforceGqlTypeByPgType k E (Some (domainTower n)) s
            = Some (Throw e, s\<lparr>depth := depth s + 1\<rparr>) \<and> rootCause e = tooDeep"
proof (induction n arbitrary: s k)
  case 0
  then obtain k' where k: "k = Suc k'" by (cases k) auto
  from 0 have "50 \<le> depth s" by simp
  then show ?case unfolding k using enforce_at_limit rootCause_tooDeep by blast
next
  case (Suc n)
  then obtain k' where k: "k = Suc k'" by (cases k) auto
  show ?case
  proof (cases "50 \<le> depth s")
    case True
    then show ?thesis unfolding k using enforce_at_limit rootCause_tooDeep by blast
  next
    case False
    let ?s1 = "s\<lparr>depth := depth s + 1\<rparr>"
    have "50 \<le> depth ?s1 + n" "1 \<le> k'" "51 - depth ?s1 \<le> k'"
      "\<forall>m<n. gqlTypeByTypeId ?s1 (100000 + m) = None"
      using Suc.prems False k by auto
    from Suc.IH [OF this] obtain e where
      e: "enforceGqlTypeByPgType k' E (Some (domainTower n)) ?s1
            = Some (Throw e, ?s1\<lparr>depth := depth ?s1 + 1\<rparr>)" and rc: "rootCause e = tooDeep"
      by blast
    have "enforceGqlTypeByPgType (Suc k') E (Some (domainTower (Suc n))) s
           = Some (Throw (processingError (domainTower (Suc n)) e), s\<lparr>depth := depth s + 1\<rparr>)"
      using False Suc.prems e by (intro enforce_domain_throws) auto
    with rc show ?thesis unfolding k by (simp add: rootCause_processingError del: domainTower.simps)
  qed
qed


lemma upperCamel_tower:
  "sampleUpperCamelCase (CHR ''d'' # replicate n (CHR ''d'')) = CHR ''D'' # replicate n (CHR ''d'')"
proof -
  have a: "split_on (CHR ''-'') (CHR ''d'' # replicate n (CHR ''d'')) = [CHR ''d'' # replicate n (CHR ''d'')]"
    by (rule split_on_absent) auto
  have b: "split_on (CHR ''_'') (CHR ''d'' # replicate n (CHR ''d'')) = [CHR ''d'' # replicate n (CHR ''d'')]"
    by (rule split_on_absent) auto
  show ?thesis unfolding sampleUpperCamelCase_def a
    by (simp add: b upperFirst_def del: split_on.simps)
qed

lemma text_ok:
  assumes "depth s < 50" "gqlTypeByTypeId s 25 = None" "gqlInputTypeByTypeId s 25 = None"
    "allTypes s ''String'' = None" "freshFor s 0"
  shows "\<exists>s'. enforceGqlTypeByPgType (Suc k) (sampleEnv ts) (Some pgText) s
                 = Some (Return GraphQLString, s') \<and>
              depth s' = depth s \<and> gqlInputTypeByTypeId s' 25 = Some GraphQLString \<and> freshFor s' 0"
  using assms
  by (simp add: sampleEnv_def reallyEnforceGqlTypeByPgType_def explicitOverrides_def oidLookup_def
        oidInputLookup_def enumPhase_def rangePhase_def domainPhase_def categoryPhase_def
        stringFallback_def inputFallback_def sampleAddType_def Let_def pgText_def
        GraphQLString_def freshFor_def)

lemma domain_ok:
  assumes d: "depth s < 50" and f: "freshFor s n"
    and r: "enforceGqlTypeByPgType k (sampleEnv ts) (Some (domainTower n)) (s\<lparr>depth := depth s + 1\<rparr>)
              = Some (Return g, s1)"
    and d1: "depth s1 = depth s + 1"
    and i1: "gqlInputTypeByTypeId s1 (case n of 0 \<Rightarrow> 25 | Suc m \<Rightarrow> 100000 + m) = Some g"
    and g: "sampleIsInputType g" "\<not> isWrapping g"
    and f1: "freshFor s1 n"
  shows "\<exists>g' s'. enforceGqlTypeByPgType (Suc k) (sampleEnv ts) (Some (domainTower (Suc n))) s
                 = Some (Return g', s') \<and>
              depth s' = depth s \<and> gqlInputTypeByTypeId s' (100000 + n) = Some g' \<and>
              sampleIsInputType g' \<and> \<not> isWrapping g' \<and> freshFor s' (Suc n)"
proof -
  let ?made = "Alias (nextRef s1) g (CHR ''D'' # replicate n (CHR ''d'')) None"
  let ?s' = "s1\<lparr>gqlTypeByTypeId := (gqlTypeByTypeId s1)(100000 + n \<mapsto> ?made),
               nextRef := nextRef s1 + 1,
               gqlInputTypeByTypeId := (gqlInputTypeByTypeId s1)(100000 + n \<mapsto> ?made),
               allTypes := (allTypes s1)(CHR ''D'' # replicate n (CHR ''d'') \<mapsto> ?made)\<rparr>"
  from f have s0: "gqlTypeByTypeId s (100000 + n) = None" by (simp add: freshFor_def)
  from f1 have s1: "gqlTypeByTypeId s1 (100000 + n) = None" "gqlInputTypeByTypeId s1 (100000 + n) = None"
    "allTypes s1 (CHR ''D'' # replicate n (CHR ''d'')) = None" by (simp_all add: freshFor_def)
  have "reallyEnforceGqlTypeByPgType (\<lambda>ty' s'. enforceGqlTypeByPgType k (sampleEnv ts) ty' s')
          (sampleEnv ts) (domainTower (Suc n)) (s\<lparr>depth := depth s + 1\<rparr>)
        = Some (Return ?made, ?s')"
    using s0 s1 r i1 g
    by (simp add: reallyEnforceGqlTypeByPgType_def explicitOverrides_high enumPhase_def
          rangePhase_def domainPhase_def categoryPhase_def stringFallback_def inputFallback_def
          tower_id domainType_def inflTypeName_def preventEmptyResult_def sampleEnv_def
          upperCamel_tower sampleAddType_def Let_def)
  then have "enforceGqlTypeByPgType (Suc k) (sampleEnv ts) (Some (domainTower (Suc n))) s
                 = Some (Return ?made, ?s'\<lparr>depth := depth ?s' - 1\<rparr>)"
    using d by (simp add: Let_def del: domainTower.simps)
  moreover have "depth (?s'\<lparr>depth := depth ?s' - 1\<rparr>) = depth s" using d1 by simp
  moreover have "gqlInputTypeByTypeId (?s'\<lparr>depth := depth ?s' - 1\<rparr>) (100000 + n) = Some ?made"
    by simp
  moreover have "sampleIsInputType ?made \<and> \<not> isWrapping ?made" using g by simp
  moreover have "freshFor (?s'\<lparr>depth := depth ?s' - 1\<rparr>) (Suc n)"
    using f1 by (auto simp: freshFor_def)
  ultimately show ?thesis by blast
qed

lemma tower_ok:
  "depth s + n < 50 \<Longrightarrow> n < k \<Longrightarrow> gqlTypeByTypeId s 25 = None \<Longrightarrow>
   gqlInputTypeByTypeId s 25 = None \<Longrightarrow> allTypes s ''String'' = None \<Longrightarrow> freshFor s 0 \<Longrightarrow>
     \<exists>g s'. enforceGqlTypeByPgType k (sampleEnv ts) (Some (domainTower n)) s = Some (Return g, s') \<and>
       depth s' = depth s \<and>
       gqlInputTypeByTypeId s' (case n of 0 \<Rightarrow> 25 | Suc m \<Rightarrow> 100000 + m) = Some g \<and>
       sampleIsInputType g \<and> \<not> isWrapping g \<and> freshFor s' n"
proof (induction n arbitrary: s k)
  case 0
  then obtain k' where k: "k = Suc k'" by (cases k) auto
  from 0 have "depth s < 50" by simp
  from text_ok [where k = k' and ts = ts, OF this 0(3) 0(4) 0(5) 0(6)]
  show ?case unfolding k by (auto simp: GraphQLString_def)
next
  case (Suc n)
  then obtain k' where k: "k = Suc k'" by (cases k) auto
  let ?s1 = "s\<lparr>depth := depth s + 1\<rparr>"
  have "depth ?s1 + n < 50" "n < k'" "gqlTypeByTypeId ?s1 25 = None"
    "gqlInputTypeByTypeId ?s1 25 = None" "allTypes ?s1 ''String'' = None" "freshFor ?s1 0"
    using Suc.prems k by (auto simp: freshFor_def)
  from Suc.IH [OF this] obtain g s1 where
    r: "enforceGqlTypeByPgType k' (sampleEnv ts) (Some (domainTower n)) ?s1 = Some (Return g, s1)"
    and d1: "depth s1 = depth ?s1"
    and i1: "gqlInputTypeByTypeId s1 (case n of 0 \<Rightarrow> 25 | Suc m \<Rightarrow> 100000 + m) = Some g"
    and g: "sampleIsInputType g" "\<not> isWrapping g" and f1: "freshFor s1 n"
    by blast
  have d: "depth s < 50" using Suc.prems by simp
  have f: "freshFor s n" using Suc.prems by (auto simp: freshFor_def)
  from domain_ok [OF d f r _ i1 g f1] d1
  show ?case unfolding k by (simp del: domainTower.simps)
qed

lemma sampleTypes_tower: "sampleTypes (CHR ''D'' # replicate m (CHR ''d'')) = None"
proof (cases m)
  case 0
  then show ?thesis by (simp add: sampleTypes_def)
next
  case (Suc m')
  then show ?thesis by (simp add: sampleTypes_def)
qed

lemma sampleState_fresh:
  "depth sampleState = 0" "gqlTypeByTypeId sampleState i = None"
  "gqlInputTypeByTypeId sampleState i = None" "allTypes sampleState ''String'' = None"
  "freshFor sampleState 0"
  by (simp_all add: sampleState_def initialState_def freshFor_def sampleTypes_tower)
    (simp add: sampleTypes_def)

lemma sample_tower_throws:
  assumes "50 \<le> n"
  shows "\<exists>e. enforceGqlTypeByPgType (51 + k) (sampleEnv []) (Some (domainTower n)) sampleState
               = Some (Throw e, sampleState\<lparr>depth := 1\<rparr>) \<and> rootCause e = tooDeep"
proof -
  have "50 \<le> depth sampleState + n" "1 \<le> 51 + k" "51 - depth sampleState \<le> 51 + k"
    "\<forall>m<n. gqlTypeByTypeId sampleState (100000 + m) = None"
    using assms by (simp_all add: sampleState_fresh)
  from tower_too_deep [OF this, of "sampleEnv []"] show ?thesis
    by (simp add: sampleState_fresh)
qed

lemma sample_tower_returns:
  assumes "n < 50"
  shows "\<exists>g s'. enforceGqlTypeByPgType (51 + k) (sampleEnv []) (Some (domainTower n)) sampleState
               = Some (Return g, s') \<and> depth s' = 0"
proof -
  have "depth sampleState + n < 50" "n < 51 + k"
    using assms by (simp_all add: sampleState_fresh)
  from tower_ok [OF this sampleState_fresh(2) sampleState_fresh(3) sampleState_fresh(4)
      sampleState_fresh(5), of "[]"]
  show ?thesis by (auto simp: sampleState_fresh)
qed

text \<open>
  C1. A chain of \<open>n\<close> domains, each over the one below and the lowest over \<^verbatim>\<open>text\<close>, is
  resolved in the state that the hook leaves, where the counter is 0, with a call
  budget of 51 or more. With 50 or 51 domains the resolution throws, and the error at
  the end of the \<^verbatim>\<open>originalError\<close> chain is the one of the depth limit; with 48 or 49
  domains it returns a type. After a resolution that returned the counter is 0 again.
  After one that failed the counter is 1, not 0: the \<^verbatim>\<open>throw\<close> of the limit stands before
  the \<^verbatim>\<open>try\<close>, so the innermost call leaves without the decrement of its \<^verbatim>\<open>finally\<close>.
\<close>

theorem too_deep_leaves_counter_raised:
  "depth sampleState = 0 \<and>
   (\<exists>e. returned (enforceGqlTypeByPgType (51 + k) (sampleEnv []) (Some (domainTower 51)) sampleState)
          = Some (Throw e) \<and> rootCause e = tooDeep) \<and>
   depthAfter (enforceGqlTypeByPgType (51 + k) (sampleEnv []) (Some (domainTower 51)) sampleState)
     = Some 1 \<and>
   (\<exists>e. returned (enforceGqlTypeByPgType (51 + k) (sampleEnv []) (Some (domainTower 50)) sampleState)
          = Some (Throw e) \<and> rootCause e = tooDeep) \<and>
   depthAfter (enforceGqlTypeByPgType (51 + k) (sampleEnv []) (Some (domainTower 50)) sampleState)
     = Some 1 \<and>
   (\<exists>g. returned (enforceGqlTypeByPgType (51 + k) (sampleEnv []) (Some (domainTower 49)) sampleState)
          = Some (Return g)) \<and>
   depthAfter (enforceGqlTypeByPgType (51 + k) (sampleEnv []) (Some (domainTower 49)) sampleState)
     = Some 0 \<and>
   (\<exists>g. returned (enforceGqlTypeByPgType (51 + k) (sampleEnv []) (Some (domainTower 48)) sampleState)
          = Some (Return g)) \<and>
   depthAfter (enforceGqlTypeByPgType (51 + k) (sampleEnv []) (Some (domainTower 48)) sampleState)
     = Some 0"
proof -
  have t: "(\<exists>e. returned (enforceGqlTypeByPgType (51 + k) (sampleEnv []) (Some (domainTower n)) sampleState)
          = Some (Throw e) \<and> rootCause e = tooDeep) \<and>
      depthAfter (enforceGqlTypeByPgType (51 + k) (sampleEnv []) (Some (domainTower n)) sampleState)
        = Some 1" if "50 \<le> n" for n
  proof -
    from sample_tower_throws [OF that, of k] obtain e where
      "enforceGqlTypeByPgType (51 + k) (sampleEnv []) (Some (domainTower n)) sampleState
               = Some (Throw e, sampleState\<lparr>depth := 1\<rparr>)" "rootCause e = tooDeep"
      by blast
    then show ?thesis by (simp add: returned_def depthAfter_def)
  qed
  have r: "(\<exists>g. returned (enforceGqlTypeByPgType (51 + k) (sampleEnv []) (Some (domainTower n)) sampleState)
          = Some (Return g)) \<and>
      depthAfter (enforceGqlTypeByPgType (51 + k) (sampleEnv []) (Some (domainTower n)) sampleState)
        = Some 0" if "n < 50" for n
  proof -
    from sample_tower_returns [OF that, of k] obtain g s' where
      "enforceGqlTypeByPgType (51 + k) (sampleEnv []) (Some (domainTower n)) sampleState
               = Some (Return g, s')" "depth s' = 0"
      by blast
    then show ?thesis by (simp add: returned_def depthAfter_def)
  qed
  have t51: "(50::nat) \<le> 51" and t50: "(50::nat) \<le> 50" and r49: "(49::nat) < 50" and r48: "(48::nat) < 50"
    by simp_all
  from t [OF t51] t [OF t50] r [OF r49] r [OF r48] sampleState_fresh(1)
  show ?thesis by blast
qed

subsection \<open>Resolving an id twice\<close>












end
